theory Spec2Isabelle
  imports Main "HOL-Library.Sublist" "HOL-Library.Monad_Syntax"
begin

section \<open>JavaScript values\<close>

text \<open>
  The TypeScript interfaces of the frontend (\<open>ApiResponse\<close>, \<open>CommandResponse\<close>, ...) are
  erased at run time: what the API client returns is whatever the HTTP body parsed to.
  Values that come from the network are therefore modelled as untyped JavaScript values.
  Numbers are restricted to integers. A string is the list of its UTF-16 code units,
  restricted to code units below 256 (one \<open>char\<close> each).
\<close>

datatype jsval =
    JUndefined
  | JNull
  | JBool bool
  | JNum int
  | JStr string
  | JArr "jsval list"
  | JObj "(string \<times> jsval) list"

text \<open>Truthiness, as tested by \<open>if (v)\<close>, \<open>a || b\<close> and \<open>a && b\<close>.\<close>

fun truthy :: "jsval \<Rightarrow> bool" where
  "truthy JUndefined = False"
| "truthy JNull = False"
| "truthy (JBool b) = b"
| "truthy (JNum n) = (n \<noteq> 0)"
| "truthy (JStr s) = (s \<noteq> [])"
| "truthy (JArr xs) = True"
| "truthy (JObj kvs) = True"

definition js_or :: "jsval \<Rightarrow> jsval \<Rightarrow> jsval" where
  "js_or a b = (if truthy a then a else b)"

fun nullish :: "jsval \<Rightarrow> bool" where
  "nullish JUndefined = True"
| "nullish JNull = True"
| "nullish v = False"

text \<open>
  Property reads. \<open>v?.k\<close> (optional chaining) never throws: it is \<open>undefined\<close> on
  \<open>undefined\<close> and \<open>null\<close>; an object yields its own property or \<open>undefined\<close>; a
  primitive or an array yields \<open>undefined\<close> for the property names this program reads
  (\<open>success\<close>, \<open>data\<close>, \<open>error\<close>, \<open>message\<close>, \<open>response\<close>, \<open>action\<close>), none of which is
  inherited from a prototype. The plain read \<open>v.k\<close> throws a TypeError (\<open>None\<close>) on
  \<open>undefined\<close> and \<open>null\<close> and agrees with \<open>v?.k\<close> elsewhere.
\<close>

fun optprop :: "jsval \<Rightarrow> string \<Rightarrow> jsval" where
  "optprop (JObj kvs) k = (case map_of kvs k of None \<Rightarrow> JUndefined | Some v \<Rightarrow> v)"
| "optprop v k = JUndefined"

definition getprop :: "jsval \<Rightarrow> string \<Rightarrow> jsval option" where
  "getprop v k = (if nullish v then None else Some (optprop v k))"

text \<open>An optional argument that was omitted is \<open>undefined\<close>.\<close>

definition optional :: "('a \<Rightarrow> jsval) \<Rightarrow> 'a option \<Rightarrow> jsval" where
  "optional f x = (case x of None \<Rightarrow> JUndefined | Some v \<Rightarrow> f v)"

definition strings :: "string list \<Rightarrow> jsval" where
  "strings xs = JArr (map JStr xs)"

section \<open>Strings\<close>

text \<open>\<open>String.prototype.trim\<close>: the white space and line terminators below code unit 256.\<close>

definition is_ws :: "char \<Rightarrow> bool" where
  "is_ws c = ((of_char c :: nat) \<in> {9, 10, 11, 12, 13, 32, 160})"

definition trim :: "string \<Rightarrow> string" where
  "trim s = rev (dropWhile is_ws (rev (dropWhile is_ws s)))"

text \<open>\<open>Number.prototype.toString\<close> on a non-negative integer.\<close>

definition digit :: "nat \<Rightarrow> char" where
  "digit n = ''0123456789ABCDEF'' ! (n mod 16)"

fun toString :: "nat \<Rightarrow> string" where
  "toString n = (if n < 10 then [digit n] else toString (n div 10) @ [digit (n mod 10)])"

declare toString.simps [simp del]

text \<open>\<open>String.prototype.toUpperCase\<close>, on the ASCII letters (the method names
  of this program are \<open>GET\<close>, \<open>POST\<close> and \<open>DELETE\<close>).\<close>

definition upper_char :: "char \<Rightarrow> char" where
  "upper_char c =
     (let n = (of_char c :: nat) in if 97 \<le> n \<and> n \<le> 122 then char_of (n - 32) else c)"

definition toUpperCase :: "string \<Rightarrow> string" where
  "toUpperCase s = map upper_char s"

text \<open>
  \<open>encodeURIComponent\<close>: the unreserved characters stay, every other code unit is
  written as the percent-escaped bytes of its UTF-8 encoding (one byte below 128,
  two bytes from 128 to 255).
\<close>

definition unreserved :: "char \<Rightarrow> bool" where
  "unreserved c =
     (c \<in> set (''ABCDEFGHIJKLMNOPQRSTUVWXYZabcdefghijklmnopqrstuvwxyz0123456789-_.!~*()''
                @ [CHR 0x27]))"

definition pct :: "nat \<Rightarrow> string" where
  "pct b = [CHR ''%'', digit (b div 16), digit (b mod 16)]"

definition encode_unit :: "char \<Rightarrow> string" where
  "encode_unit c =
     (let n = (of_char c :: nat) in
      if unreserved c then [c]
      else if n < 128 then pct n
      else pct (192 + n div 64) @ pct (128 + n mod 64))"

definition encodeURIComponent :: "string \<Rightarrow> string" where
  "encodeURIComponent s = concat (map encode_unit s)"

section \<open>The API client\<close>

subsection \<open>Requests, responses, errors\<close>

text \<open>
  The request configuration that axios hands to the interceptors and to the network:
  the instance defaults of \<open>axios.create\<close> merged with the four fields that \<open>request\<close> passes.
\<close>

record request_config =
  baseURL :: string
  timeout :: nat
  headers :: "(string \<times> string) list"
  cfg_method :: string
  cfg_url :: string
  cfg_data :: jsval
  cfg_params :: jsval

record http_response =
  resp_status :: nat
  resp_data :: jsval
  resp_config :: request_config

text \<open>The error axios rejects with: \<open>response\<close> is absent when no response arrived
  (network failure, timeout).\<close>

record axios_error =
  err_message :: string
  err_response :: "http_response option"

text \<open>The network: what the adapter settles a request with (fulfilled on the right,
  rejected on the left).\<close>

type_synonym network = "request_config \<Rightarrow> axios_error + http_response"

datatype logged = Value jsval | Error axios_error | TypeError

datatype console_entry =
    ConsoleLog string
  | ConsoleError string logged

text \<open>What the client does to the outside: lines on the console and requests on the wire.\<close>

record world =
  console :: "console_entry list"
  wire :: "request_config list"

subsection \<open>Construction and interceptors\<close>

text \<open>\<open>import.meta.env.VITE_API_URL || 'http://localhost:5000'\<close>\<close>

definition base_url :: "string option \<Rightarrow> string" where
  "base_url env =
     (case env of
        None \<Rightarrow> ''http://localhost:5000''
      | Some u \<Rightarrow> if u \<noteq> [] then u else ''http://localhost:5000'')"

record ApiService =
  vite_api_url :: "string option"
  net :: network

definition client_config ::
  "ApiService \<Rightarrow> string \<Rightarrow> string \<Rightarrow> jsval \<Rightarrow> jsval \<Rightarrow> request_config" where
  "client_config this m u d p =
     \<lparr> baseURL = base_url (vite_api_url this),
       timeout = 30000,
       headers = [(''Content-Type'', ''application/json'')],
       cfg_method = m, cfg_url = u, cfg_data = d, cfg_params = p \<rparr>"

definition request_onFulfilled ::
  "request_config \<Rightarrow> world \<Rightarrow> (axios_error + request_config) \<times> world" where
  "request_onFulfilled config w =
     (Inr config,
      w\<lparr>console := console w @
           [ConsoleLog (''API Request: '' @ toUpperCase (cfg_method config) @ '' '' @ cfg_url config)]\<rparr>)"

definition request_onRejected ::
  "axios_error \<Rightarrow> world \<Rightarrow> (axios_error + request_config) \<times> world" where
  "request_onRejected error w =
     (Inl error,
      w\<lparr>console := console w @ [ConsoleError ''API Request Error:'' (Error error)]\<rparr>)"

definition response_onFulfilled ::
  "http_response \<Rightarrow> world \<Rightarrow> (axios_error + http_response) \<times> world" where
  "response_onFulfilled response w =
     (Inr response,
      w\<lparr>console := console w @
           [ConsoleLog (''API Response: '' @ toString (resp_status response) @ '' ''
                        @ cfg_url (resp_config response))]\<rparr>)"

text \<open>\<open>error.response?.data || error.message\<close>\<close>

definition error_detail :: "axios_error \<Rightarrow> jsval" where
  "error_detail error =
     js_or (case err_response error of None \<Rightarrow> JUndefined | Some r \<Rightarrow> resp_data r)
           (JStr (err_message error))"

definition response_onRejected ::
  "axios_error \<Rightarrow> world \<Rightarrow> (axios_error + http_response) \<times> world" where
  "response_onRejected error w =
     (Inl error,
      w\<lparr>console := console w @ [ConsoleError ''API Response Error:'' (Value (error_detail error))]\<rparr>)"

text \<open>
  \<open>this.client.request\<close>: axios runs the request interceptor on the merged configuration,
  sends what the interceptor returned, and runs the response interceptor on the outcome
  (its first handler on a fulfilled request, its second on a rejected one).
\<close>

definition client_request ::
  "ApiService \<Rightarrow> request_config \<Rightarrow> world \<Rightarrow> (axios_error + http_response) \<times> world" where
  "client_request this config w =
     (case request_onFulfilled config w of
        (Inl e, w1) \<Rightarrow> response_onRejected e w1
      | (Inr config1, w1) \<Rightarrow>
          (let w2 = w1\<lparr>wire := wire w1 @ [config1]\<rparr> in
           case net this config1 of
             Inr response \<Rightarrow> response_onFulfilled response w2
           | Inl error \<Rightarrow> response_onRejected error w2))"

subsection \<open>The generic request method\<close>

definition request ::
  "ApiService \<Rightarrow> string \<Rightarrow> string \<Rightarrow> jsval \<Rightarrow> jsval \<Rightarrow> world \<Rightarrow> (axios_error + jsval) \<times> world" where
  "request this m u d p w =
     (case client_request this (client_config this m u d p) w of
        (Inr response, w') \<Rightarrow> (Inr (resp_data response), w')
      | (Inl error, w') \<Rightarrow>
          (if truthy (case err_response error of None \<Rightarrow> JUndefined | Some r \<Rightarrow> resp_data r)
           then (Inr (case err_response error of None \<Rightarrow> JUndefined | Some r \<Rightarrow> resp_data r), w')
           else (Inl error, w')))"

subsection \<open>The endpoint methods\<close>

text \<open>
  Every public method of \<open>ApiService\<close> is one call of \<open>request\<close>. A method is a
  constructor holding its arguments (an optional argument is an \<open>option\<close>), and
  \<open>endpoint\<close> gives the four arguments the method passes to \<open>request\<close>: HTTP method,
  URL, body and query parameters.
\<close>

datatype region = Region int int int int

definition region_obj :: "region \<Rightarrow> jsval" where
  "region_obj r =
     (case r of Region x y width height \<Rightarrow>
        JObj [(''x'', JNum x), (''y'', JNum y), (''width'', JNum width), (''height'', JNum height)])"

datatype api_call =
    GetHealth
  | GetApiDocs
  | ExecuteCommand jsval
  | InterpretCommand string
  | GetCommandHistory
  | GetCommandSuggestions string
  | GetSystemInfo
  | GetInstalledApplications
  | OpenApplication string "string list option"
  | OpenFolder string "string list option"
  | CaptureScreen "region option"
  | AnalyzeScreen string "region option"
  | ClickScreen int int "int option"
  | ScrollScreen string int "int option" "int option"
  | TypeText string "int option"
  | PressKey string
  | ExecuteSystemCommand string
  | GetSystemStatus
  | TestSystemFunctionality
  | SearchFiles string "string option" "int option" "string list option"
  | GetFileInfo string
  | OpenFile string
  | ReadFile string "string option" "int option"
  | WriteFile string string "string option" "bool option"
  | ListDirectory string "bool option"
  | CreateDirectory string
  | CopyFile string string
  | MoveFile string string
  | DeleteFile string "bool option"
  | GetDiskUsage "string option"
  | FindDuplicates string "int option"
  | CleanupTempFiles "string list option"
  | GetFileServiceStatus
  | SearchWeb string
  | OpenWebsite string
  | BrowseUrl string
  | SearchYouTube string "int option"
  | SearchYouTubeDirect string
  | PlayYouTubeVideo string
  | PlayMusic string "string option"
  | SearchTutorials string "int option"
  | GetVideoInfo string
  | CreatePlaylist "jsval list" string
  | GetTrendingVideos "string option" "string option"
  | GetMediaServiceStatus
  | ConstructUrl string

text \<open>\<open>executableHints || []\<close>: an array, even an empty one, is truthy.\<close>

definition or_empty :: "string list option \<Rightarrow> jsval" where
  "or_empty xs = js_or (optional strings xs) (JArr [])"

primrec endpoint :: "api_call \<Rightarrow> string \<times> string \<times> jsval \<times> jsval" where
  "endpoint GetHealth = (''GET'', ''/health'', JUndefined, JUndefined)"
| "endpoint GetApiDocs = (''GET'', ''/api/docs'', JUndefined, JUndefined)"
| "endpoint (ExecuteCommand commandRequest) =
     (''POST'', ''/api/v1/commands/execute'', commandRequest, JUndefined)"
| "endpoint (InterpretCommand command) =
     (''POST'', ''/api/v1/commands/interpret'', JObj [(''command'', JStr command)], JUndefined)"
| "endpoint GetCommandHistory = (''GET'', ''/api/v1/commands/history'', JUndefined, JUndefined)"
| "endpoint (GetCommandSuggestions partialCommand) =
     (''POST'', ''/api/v1/commands/suggest'',
      JObj [(''partial_command'', JStr partialCommand)], JUndefined)"
| "endpoint GetSystemInfo = (''GET'', ''/api/v1/system/info'', JUndefined, JUndefined)"
| "endpoint GetInstalledApplications =
     (''GET'', ''/api/v1/system/applications'', JUndefined, JUndefined)"
| "endpoint (OpenApplication appName executableHints) =
     (''POST'', ''/api/v1/system/applications/'' @ encodeURIComponent appName @ ''/open'',
      JObj [(''executable_hints'', or_empty executableHints)], JUndefined)"
| "endpoint (OpenFolder folderName folderPaths) =
     (''POST'', ''/api/v1/system/folders/open'',
      JObj [(''folder_name'', JStr folderName), (''folder_paths'', or_empty folderPaths)],
      JUndefined)"
| "endpoint (CaptureScreen region) =
     (''GET'', ''/api/v1/system/screen/capture'', JUndefined, optional region_obj region)"
| "endpoint (AnalyzeScreen query region) =
     (''POST'', ''/api/v1/system/screen/analyze'',
      JObj [(''query'', JStr query), (''region'', optional region_obj region)], JUndefined)"
| "endpoint (ClickScreen x y duration) =
     (''POST'', ''/api/v1/system/screen/click'',
      JObj [(''x'', JNum x), (''y'', JNum y), (''duration'', optional JNum duration)], JUndefined)"
| "endpoint (ScrollScreen direction amount x y) =
     (''POST'', ''/api/v1/system/screen/scroll'',
      JObj [(''direction'', JStr direction), (''amount'', JNum amount),
            (''x'', optional JNum x), (''y'', optional JNum y)], JUndefined)"
| "endpoint (TypeText text interval) =
     (''POST'', ''/api/v1/system/keyboard/type'',
      JObj [(''text'', JStr text), (''interval'', optional JNum interval)], JUndefined)"
| "endpoint (PressKey key) =
     (''POST'', ''/api/v1/system/keyboard/press'', JObj [(''key'', JStr key)], JUndefined)"
| "endpoint (ExecuteSystemCommand command) =
     (''POST'', ''/api/v1/system/execute'', JObj [(''command'', JStr command)], JUndefined)"
| "endpoint GetSystemStatus = (''GET'', ''/api/v1/system/status'', JUndefined, JUndefined)"
| "endpoint TestSystemFunctionality = (''GET'', ''/api/v1/system/test'', JUndefined, JUndefined)"
| "endpoint (SearchFiles query fileType maxResults searchLocations) =
     (''POST'', ''/api/v1/files/search'',
      JObj [(''query'', JStr query),
            (''file_type'', optional JStr fileType),
            (''max_results'', optional JNum maxResults),
            (''search_locations'', optional strings searchLocations)], JUndefined)"
| "endpoint (GetFileInfo filePath) =
     (''GET'', ''/api/v1/files/'' @ encodeURIComponent filePath @ ''/info'', JUndefined, JUndefined)"
| "endpoint (OpenFile filePath) =
     (''POST'', ''/api/v1/files/'' @ encodeURIComponent filePath @ ''/open'', JUndefined, JUndefined)"
| "endpoint (ReadFile filePath encoding maxSize) =
     (''GET'', ''/api/v1/files/'' @ encodeURIComponent filePath @ ''/read'', JUndefined,
      JObj [(''encoding'', optional JStr encoding), (''max_size'', optional JNum maxSize)])"
| "endpoint (WriteFile filePath content encoding backup) =
     (''POST'', ''/api/v1/files/'' @ encodeURIComponent filePath @ ''/write'',
      JObj [(''content'', JStr content), (''encoding'', optional JStr encoding),
            (''backup'', optional JBool backup)], JUndefined)"
| "endpoint (ListDirectory dirPath showHidden) =
     (''GET'', ''/api/v1/files/'' @ encodeURIComponent dirPath @ ''/list'', JUndefined,
      JObj [(''show_hidden'', optional JBool showHidden)])"
| "endpoint (CreateDirectory dirPath) =
     (''POST'', ''/api/v1/files/'' @ encodeURIComponent dirPath @ ''/create'', JUndefined, JUndefined)"
| "endpoint (CopyFile filePath destination) =
     (''POST'', ''/api/v1/files/'' @ encodeURIComponent filePath @ ''/copy'',
      JObj [(''destination'', JStr destination)], JUndefined)"
| "endpoint (MoveFile filePath destination) =
     (''POST'', ''/api/v1/files/'' @ encodeURIComponent filePath @ ''/move'',
      JObj [(''destination'', JStr destination)], JUndefined)"
| "endpoint (DeleteFile filePath permanent) =
     (''DELETE'', ''/api/v1/files/'' @ encodeURIComponent filePath @ ''/delete'', JUndefined,
      JObj [(''permanent'', optional JBool permanent)])"
| "endpoint (GetDiskUsage path) =
     (''GET'', ''/api/v1/files/disk-usage'', JUndefined, JObj [(''path'', optional JStr path)])"
| "endpoint (FindDuplicates directory minSize) =
     (''POST'', ''/api/v1/files/duplicates'',
      JObj [(''directory'', JStr directory), (''min_size'', optional JNum minSize)], JUndefined)"
| "endpoint (CleanupTempFiles tempDirs) =
     (''POST'', ''/api/v1/files/cleanup'', JObj [(''temp_dirs'', optional strings tempDirs)],
      JUndefined)"
| "endpoint GetFileServiceStatus = (''GET'', ''/api/v1/files/status'', JUndefined, JUndefined)"
| "endpoint (SearchWeb query) =
     (''POST'', ''/api/v1/media/web/search'', JObj [(''query'', JStr query)], JUndefined)"
| "endpoint (OpenWebsite site) =
     (''POST'', ''/api/v1/media/website/open'', JObj [(''site'', JStr site)], JUndefined)"
| "endpoint (BrowseUrl url) =
     (''POST'', ''/api/v1/media/browse'', JObj [(''url'', JStr url)], JUndefined)"
| "endpoint (SearchYouTube query maxResults) =
     (''POST'', ''/api/v1/media/youtube/search'',
      JObj [(''query'', JStr query), (''max_results'', optional JNum maxResults)], JUndefined)"
| "endpoint (SearchYouTubeDirect query) =
     (''POST'', ''/api/v1/media/youtube/search-direct'', JObj [(''query'', JStr query)], JUndefined)"
| "endpoint (PlayYouTubeVideo query) =
     (''POST'', ''/api/v1/media/youtube/play'', JObj [(''query'', JStr query)], JUndefined)"
| "endpoint (PlayMusic songName artist) =
     (''POST'', ''/api/v1/media/youtube/music'',
      JObj [(''song_name'', JStr songName), (''artist'', optional JStr artist)], JUndefined)"
| "endpoint (SearchTutorials topic maxResults) =
     (''POST'', ''/api/v1/media/youtube/tutorials'',
      JObj [(''topic'', JStr topic), (''max_results'', optional JNum maxResults)], JUndefined)"
| "endpoint (GetVideoInfo url) =
     (''POST'', ''/api/v1/media/youtube/video-info'', JObj [(''url'', JStr url)], JUndefined)"
| "endpoint (CreatePlaylist videos name) =
     (''POST'', ''/api/v1/media/youtube/playlist'',
      JObj [(''videos'', JArr videos), (''name'', JStr name)], JUndefined)"
| "endpoint (GetTrendingVideos region category) =
     (''GET'', ''/api/v1/media/youtube/trending'', JUndefined,
      JObj [(''region'', optional JStr region), (''category'', optional JStr category)])"
| "endpoint GetMediaServiceStatus = (''GET'', ''/api/v1/media/status'', JUndefined, JUndefined)"
| "endpoint (ConstructUrl websiteInput) =
     (''POST'', ''/api/v1/media/url/construct'',
      JObj [(''website_input'', JStr websiteInput)], JUndefined)"

definition invoke ::
  "ApiService \<Rightarrow> api_call \<Rightarrow> world \<Rightarrow> (axios_error + jsval) \<times> world" where
  "invoke this c w = (case endpoint c of (m, u, d, p) \<Rightarrow> request this m u d p w)"

text \<open>The request configuration a method hands to axios.\<close>

definition config_of :: "ApiService \<Rightarrow> api_call \<Rightarrow> request_config" where
  "config_of this c = (case endpoint c of (m, u, d, p) \<Rightarrow> client_config this m u d p)"

text \<open>The namespaces of the versioned REST interface.\<close>

definition versioned :: "string \<Rightarrow> bool" where
  "versioned u =
     (prefix ''/api/v1/commands/'' u \<or> prefix ''/api/v1/system/'' u
      \<or> prefix ''/api/v1/files/'' u \<or> prefix ''/api/v1/media/'' u)"


text \<open>The endpoints documented in the README, as HTTP method and path.\<close>

definition readme_endpoints :: "(string \<times> string) list" where
  "readme_endpoints =
     [(''POST'', ''/api/v1/commands/execute''),
      (''POST'', ''/api/v1/commands/interpret''),
      (''GET'', ''/api/v1/commands/history''),
      (''GET'', ''/api/v1/system/info''),
      (''GET'', ''/api/v1/system/status''),
      (''GET'', ''/api/v1/system/screen/capture''),
      (''POST'', ''/api/v1/system/screen/analyze''),
      (''POST'', ''/api/v1/files/search''),
      (''GET'', ''/api/v1/files/<path>/info''),
      (''POST'', ''/api/v1/files/<path>/open''),
      (''POST'', ''/api/v1/media/youtube/search''),
      (''POST'', ''/api/v1/media/youtube/play''),
      (''POST'', ''/api/v1/media/web/search'')]"

section \<open>The Chat page\<close>

datatype role = User | Assistant

record ChatMessage =
  msg_id :: string
  msg_type :: role
  content :: jsval
  timestamp :: nat
  action :: jsval
  msg_data :: jsval

record chat_state =
  messages :: "ChatMessage list"
  input :: string
  isLoading :: bool
  isListening :: bool

text \<open>The readings of \<open>Date.now()\<close> and \<open>new Date()\<close> (milliseconds) when the user message
  and when the reply are built.\<close>

record send_clock =
  now_user :: nat
  date_user :: nat
  now_reply :: nat
  date_reply :: nat

definition initial_chat :: "nat \<Rightarrow> chat_state" where
  "initial_chat mounted =
     \<lparr> messages =
         [\<lparr> msg_id = ''1'', msg_type = Assistant,
            content = JStr (''Hello! I'' @ [CHR 0x27]
                            @ ''m JARVIS, your AI assistant. How can I help you today?''),
            timestamp = mounted, action = JUndefined, msg_data = JUndefined \<rparr>],
       input = [], isLoading = False, isListening = False \<rparr>"

definition userMessage :: "send_clock \<Rightarrow> chat_state \<Rightarrow> ChatMessage" where
  "userMessage clk st =
     \<lparr> msg_id = toString (now_user clk), msg_type = User,
       content = JStr (trim (input st)), timestamp = date_user clk,
       action = JUndefined, msg_data = JUndefined \<rparr>"

text \<open>The body of the \<open>try\<close> block after the \<open>await\<close>; \<open>None\<close> when a property read throws.\<close>

definition try_reply :: "send_clock \<Rightarrow> jsval \<Rightarrow> ChatMessage option" where
  "try_reply clk response = do {
     success \<leftarrow> getprop response ''success'';
     cond \<leftarrow> (if truthy success then getprop response ''data'' else Some success);
     if truthy cond then do {
       data \<leftarrow> getprop response ''data'';
       reply \<leftarrow> getprop data ''response'';
       act \<leftarrow> getprop data ''action'';
       dat \<leftarrow> getprop data ''data'';
       Some \<lparr> msg_id = toString (now_reply clk + 1), msg_type = Assistant,
              content = js_or reply (JStr ''Command executed successfully''),
              timestamp = date_reply clk, action = act, msg_data = dat \<rparr>
     } else do {
       err \<leftarrow> getprop response ''error'';
       Some \<lparr> msg_id = toString (now_reply clk + 1), msg_type = Assistant,
              content = js_or (optprop err ''message'') (JStr ''Sorry, something went wrong.''),
              timestamp = date_reply clk, action = JUndefined, msg_data = JUndefined \<rparr>
     }
   }"

text \<open>The message of the \<open>catch\<close> block.\<close>

definition caught_reply :: "send_clock \<Rightarrow> ChatMessage" where
  "caught_reply clk =
     \<lparr> msg_id = toString (now_reply clk + 1), msg_type = Assistant,
       content = JStr ''Sorry, I encountered an error while processing your request.'',
       timestamp = date_reply clk, action = JUndefined, msg_data = JUndefined \<rparr>"

definition reply_message :: "send_clock \<Rightarrow> axios_error + jsval \<Rightarrow> ChatMessage" where
  "reply_message clk r =
     (case r of
        Inl error \<Rightarrow> caught_reply clk
      | Inr response \<Rightarrow>
          (case try_reply clk response of None \<Rightarrow> caught_reply clk | Some m \<Rightarrow> m))"

text \<open>The state updates before the \<open>await\<close>, and those after it (with \<open>finally\<close>).\<close>

definition begin_send :: "send_clock \<Rightarrow> chat_state \<Rightarrow> chat_state" where
  "begin_send clk st =
     st\<lparr>messages := messages st @ [userMessage clk st], input := [], isLoading := True\<rparr>"

definition settle_send :: "send_clock \<Rightarrow> axios_error + jsval \<Rightarrow> chat_state \<Rightarrow> chat_state" where
  "settle_send clk r st =
     st\<lparr>messages := messages st @ [reply_message clk r], isLoading := False\<rparr>"

definition command_request :: "ChatMessage \<Rightarrow> jsval" where
  "command_request m = JObj [(''command'', content m), (''user_id'', JStr ''user'')]"

definition handleSendMessage ::
  "ApiService \<Rightarrow> send_clock \<Rightarrow> chat_state \<Rightarrow> world \<Rightarrow> chat_state \<times> world" where
  "handleSendMessage this clk st w =
     (if trim (input st) = [] \<or> isLoading st then (st, w)
      else
        (case invoke this (ExecuteCommand (command_request (userMessage clk st))) w of
           (r, w') \<Rightarrow> (settle_send clk r (begin_send clk st), w')))"

section \<open>The Dashboard and SystemInfo pages\<close>

record dashboard_state =
  appStatus :: jsval
  diagnostics :: jsval
  recentActivity :: "jsval list"
  loading :: bool

definition initial_dashboard :: dashboard_state where
  "initial_dashboard =
     \<lparr> appStatus = JNull, diagnostics = JNull, recentActivity = [], loading = True \<rparr>"

definition mock_diagnostics :: jsval where
  "mock_diagnostics =
     JObj [(''cpu'', JObj [(''usage'', JNum 45), (''cores'', JNum 8)]),
           (''memory'', JObj [(''total'', JNum 16384), (''used'', JNum 8192),
                              (''available'', JNum 8192), (''percentage'', JNum 50)]),
           (''disk'', JArr []),
           (''network'', JObj [(''connected'', JBool True)]),
           (''services'', JObj [(''ai'', JStr ''online''), (''voice'', JStr ''online''),
                                (''vision'', JStr ''online''), (''system'', JStr ''online''),
                                (''files'', JStr ''online''), (''media'', JStr ''online'')])]"

definition console_error :: "string \<Rightarrow> logged \<Rightarrow> world \<Rightarrow> world" where
  "console_error label v w = w\<lparr>console := console w @ [ConsoleError label v]\<rparr>"

text \<open>\<open>loadDashboardData\<close> is an \<open>async\<close> function: the call issues the request, and the
  rest of its body runs when the request has settled, on the state as it is then.\<close>

definition loadDashboardData_resume ::
  "axios_error + jsval \<Rightarrow> dashboard_state \<Rightarrow> world \<Rightarrow> dashboard_state \<times> world" where
  "loadDashboardData_resume r st w =
     (case r of
        Inl error \<Rightarrow>
          (st\<lparr>loading := False\<rparr>,
           console_error ''Failed to load dashboard data:'' (Error error) w)
      | Inr statusResponse \<Rightarrow>
          (case getprop statusResponse ''success'' of
             None \<Rightarrow>
               (st\<lparr>loading := False\<rparr>,
                console_error ''Failed to load dashboard data:'' TypeError w)
           | Some success \<Rightarrow>
               (let st1 = (if truthy success
                           then st\<lparr>appStatus := optprop statusResponse ''data''\<rparr> else st)
                in (st1\<lparr>diagnostics := mock_diagnostics, loading := False\<rparr>, w))))"

definition loadDashboardData ::
  "ApiService \<Rightarrow> dashboard_state \<Rightarrow> world \<Rightarrow> dashboard_state \<times> world" where
  "loadDashboardData this st w =
     (case invoke this GetSystemStatus w of (r, w') \<Rightarrow> loadDashboardData_resume r st w')"

text \<open>A sequence of loads, each completing before the next starts; every load meets
  the network as it is at that moment.\<close>

fun dashboard_loads ::
  "ApiService list \<Rightarrow> dashboard_state \<times> world \<Rightarrow> dashboard_state \<times> world" where
  "dashboard_loads [] sw = sw"
| "dashboard_loads (this # rest) sw = dashboard_loads rest (loadDashboardData this (fst sw) (snd sw))"

record systeminfo_state =
  systemInfo :: jsval
  sys_appStatus :: jsval
  sys_loading :: bool
  refreshing :: bool

definition initial_systeminfo :: systeminfo_state where
  "initial_systeminfo =
     \<lparr> systemInfo = JNull, sys_appStatus = JNull, sys_loading = True, refreshing = False \<rparr>"

text \<open>The \<open>finally\<close> block of \<open>loadSystemInfo\<close>.\<close>

definition finally_loaded :: "systeminfo_state \<Rightarrow> systeminfo_state" where
  "finally_loaded st = st\<lparr>sys_loading := False, refreshing := False\<rparr>"

text \<open>
  \<open>Promise.all\<close> issues both requests and rejects as soon as one of them rejects; when
  both reject, the error logged here is that of the first request of the array.
\<close>

definition loadSystemInfo ::
  "ApiService \<Rightarrow> systeminfo_state \<Rightarrow> world \<Rightarrow> systeminfo_state \<times> world" where
  "loadSystemInfo this st w =
     (let st0 = st\<lparr>refreshing := True\<rparr> in
      case invoke this GetSystemInfo w of (r1, w1) \<Rightarrow>
      case invoke this GetSystemStatus w1 of (r2, w2) \<Rightarrow>
        (case r1 of
           Inl error \<Rightarrow>
             (finally_loaded st0, console_error ''Failed to load system info:'' (Error error) w2)
         | Inr systemResponse \<Rightarrow>
             (case r2 of
                Inl error \<Rightarrow>
                  (finally_loaded st0,
                   console_error ''Failed to load system info:'' (Error error) w2)
              | Inr statusResponse \<Rightarrow>
                  (case getprop systemResponse ''success'' of
                     None \<Rightarrow>
                       (finally_loaded st0,
                        console_error ''Failed to load system info:'' TypeError w2)
                   | Some success1 \<Rightarrow>
                       (let st1 = (if truthy success1
                                   then st0\<lparr>systemInfo := optprop systemResponse ''data''\<rparr>
                                   else st0)
                        in case getprop statusResponse ''success'' of
                             None \<Rightarrow>
                               (finally_loaded st1,
                                console_error ''Failed to load system info:'' TypeError w2)
                           | Some success2 \<Rightarrow>
                               (let st2 = (if truthy success2
                                           then st1\<lparr>sys_appStatus := optprop statusResponse ''data''\<rparr>
                                           else st1)
                                in (finally_loaded st2, w2)))))))"

fun systeminfo_loads ::
  "ApiService list \<Rightarrow> systeminfo_state \<times> world \<Rightarrow> systeminfo_state \<times> world" where
  "systeminfo_loads [] sw = sw"
| "systeminfo_loads (this # rest) sw = systeminfo_loads rest (loadSystemInfo this (fst sw) (snd sw))"


section \<open>Routes and navigation\<close>

datatype page = Dashboard | Chat | SystemInfo | FileManager | VoiceControl | Settings | NotFound

text \<open>The children of \<open>Routes\<close> in \<open>App\<close>, in source order: path pattern and element.\<close>

definition routes :: "(string \<times> page) list" where
  "routes =
     [(''/'', Dashboard),
      (''/chat'', Chat),
      (''/system'', SystemInfo),
      (''/files'', FileManager),
      (''/voice'', VoiceControl),
      (''/settings'', Settings),
      (''*'', NotFound)]"

text \<open>
  Which pattern matches which location is decided by the router library, so the matcher
  is a parameter; the element rendered is that of the first route whose pattern matches
  (the catch-all is last, and ranks last in the library too).
\<close>

definition resolve :: "(string \<Rightarrow> string \<Rightarrow> bool) \<Rightarrow> string \<Rightarrow> page option" where
  "resolve matches location =
     map_option snd (find (\<lambda>r. matches (fst r) location) routes)"

text \<open>The plain matcher: a static pattern matches itself, the catch-all everything.\<close>

definition exact :: "string \<Rightarrow> string \<Rightarrow> bool" where
  "exact pattern location = (pattern = ''*'' \<or> pattern = location)"

record nav_item =
  nav_id :: string
  label :: string
  icon :: string
  path :: string

definition navigation :: "nav_item list" where
  "navigation =
     [\<lparr> nav_id = ''dashboard'', label = ''Dashboard'', icon = ''Activity'', path = ''/'' \<rparr>,
      \<lparr> nav_id = ''chat'', label = ''AI Assistant'', icon = ''Brain'', path = ''/chat'' \<rparr>,
      \<lparr> nav_id = ''system'', label = ''System'', icon = ''Monitor'', path = ''/system'' \<rparr>,
      \<lparr> nav_id = ''files'', label = ''Files'', icon = ''FolderOpen'', path = ''/files'' \<rparr>,
      \<lparr> nav_id = ''voice'', label = ''Voice'', icon = ''Mic'', path = ''/voice'' \<rparr>,
      \<lparr> nav_id = ''settings'', label = ''Settings'', icon = ''Settings'', path = ''/settings'' \<rparr>]"

section \<open>The life of the Dashboard page\<close>

subsection \<open>Rendering\<close>

text \<open>The icons the module imports from \<open>lucide-react\<close>.\<close>

definition dashboard_imports :: "string list" where
  "dashboard_imports =
     [''Activity'', ''Brain'', ''Monitor'', ''FolderOpen'', ''Zap'', ''Cpu'', ''HardDrive'',
      ''Wifi'', ''MessageSquare'', ''TrendingUp'']"

text \<open>
  The icon identifiers the main view evaluates while the component function runs, in
  evaluation order: the four stat cards, the six capabilities, and the empty-activity
  placeholder.
\<close>

definition view_icons :: "dashboard_state \<Rightarrow> string list" where
  "view_icons st =
     [''Activity'', ''Cpu'', ''HardDrive'', ''Wifi'',
      ''Monitor'', ''Brain'', ''FolderOpen'', ''Zap'', ''Mic'', ''Wifi'']
     @ (if recentActivity st = [] then [''MessageSquare''] else [])"

datatype view = Spinner | MainView

text \<open>
  The component function: the spinner while \<open>loading\<close>, the main view otherwise.
  Evaluating an identifier that the module neither declares nor imports throws a
  ReferenceError (\<open>None\<close>).
\<close>

definition render :: "dashboard_state \<Rightarrow> view option" where
  "render st =
     (if loading st then Some Spinner
      else if set (view_icons st) \<subseteq> set dashboard_imports then Some MainView
      else None)"

subsection \<open>Effect, timers and loads in logical time\<close>

text \<open>
  The effect of \<open>Dashboard\<close> has an empty dependency list: its body runs once, on mount,
  and its cleanup once, on unmount. Timers are those of the browser, in logical time:
  one tick is one millisecond, an interval timer (of a positive delay) fires when its due
  time is reached and is then due again one delay later. A request settles \<open>rtt\<close>
  milliseconds after it was issued; the rest of \<open>loadDashboardData\<close> runs then, and the
  state update is followed by a render. A render that throws takes the page down, as an
  unmount does: the cleanup of the effect runs. After the unmount a state update is
  ignored.
\<close>

datatype callback = LoadDashboardData

record timer =
  handle :: nat
  delay :: nat
  due :: nat
  callback :: callback

record pending_load =
  settle_at :: nat
  settles_with :: "axios_error + jsval"

record dashboard_page =
  now :: nat
  timers :: "timer list"
  next_handle :: nat
  interval :: "nat option"
  mounted :: bool
  crashed :: bool
  view_state :: dashboard_state
  pending :: "pending_load list"
  load_calls :: "nat list"
  outside :: world
  api :: ApiService
  rtt :: nat

text \<open>The call \<open>loadDashboardData()\<close>: the request goes out, the rest waits.\<close>

definition call_load :: "dashboard_page \<Rightarrow> dashboard_page" where
  "call_load e =
     (case invoke (api e) GetSystemStatus (outside e) of
        (r, w') \<Rightarrow>
          e\<lparr>load_calls := load_calls e @ [now e],
            pending := pending e @ [\<lparr> settle_at = now e + rtt e, settles_with = r \<rparr>],
            outside := w'\<rparr>)"

fun run :: "callback \<Rightarrow> dashboard_page \<Rightarrow> dashboard_page" where
  "run LoadDashboardData e = call_load e"

definition setInterval :: "callback \<Rightarrow> nat \<Rightarrow> dashboard_page \<Rightarrow> nat \<times> dashboard_page" where
  "setInterval f ms e =
     (next_handle e,
      e\<lparr>timers := timers e @
            [\<lparr> handle = next_handle e, delay = ms, due = now e + ms, callback = f \<rparr>],
        next_handle := Suc (next_handle e)\<rparr>)"

definition clearInterval :: "nat \<Rightarrow> dashboard_page \<Rightarrow> dashboard_page" where
  "clearInterval h e = e\<lparr>timers := filter (\<lambda>t. handle t \<noteq> h) (timers e)\<rparr>"

text \<open>Unmounting: the cleanup of the effect.\<close>

definition unmount :: "dashboard_page \<Rightarrow> dashboard_page" where
  "unmount e =
     (case interval e of
        None \<Rightarrow> e\<lparr>mounted := False\<rparr>
      | Some h \<Rightarrow> (clearInterval h e)\<lparr>interval := None, mounted := False\<rparr>)"

text \<open>A render: when it throws, the page is taken down.\<close>

definition rerender :: "dashboard_page \<Rightarrow> dashboard_page" where
  "rerender e =
     (case render (view_state e) of
        Some v \<Rightarrow> e
      | None \<Rightarrow> (unmount e)\<lparr>crashed := True\<rparr>)"

text \<open>Mounting: the initial state and the first render, then the body of the effect.\<close>

definition mount :: "dashboard_page \<Rightarrow> dashboard_page" where
  "mount e =
     (let e0 = rerender (e\<lparr>mounted := True, crashed := False, view_state := initial_dashboard\<rparr>)
      in if mounted e0
         then (case setInterval LoadDashboardData 5000 (call_load e0) of
                 (h, e') \<Rightarrow> e'\<lparr>interval := Some h\<rparr>)
         else e0)"

text \<open>A request settles: the rest of \<open>loadDashboardData\<close> runs.\<close>

definition settle :: "pending_load \<Rightarrow> dashboard_page \<Rightarrow> dashboard_page" where
  "settle p e =
     (case loadDashboardData_resume (settles_with p) (view_state e) (outside e) of
        (st', w') \<Rightarrow>
          if mounted e then rerender (e\<lparr>view_state := st', outside := w'\<rparr>)
          else e\<lparr>outside := w'\<rparr>)"

text \<open>One millisecond passes: the timers that are due run, then the requests that
  have settled by now are resumed, in the order in which they were issued.\<close>

definition run_timers :: "dashboard_page \<Rightarrow> dashboard_page" where
  "run_timers e =
     (let t = Suc (now e) in
      fold (\<lambda>x. run (callback x)) (filter (\<lambda>x. due x = t) (timers e))
        (e\<lparr>now := t,
           timers := map (\<lambda>x. if due x = t then x\<lparr>due := t + delay x\<rparr> else x) (timers e)\<rparr>))"

definition settle_requests :: "dashboard_page \<Rightarrow> dashboard_page" where
  "settle_requests e =
     fold settle (filter (\<lambda>p. settle_at p \<le> now e) (pending e))
       (e\<lparr>pending := filter (\<lambda>p. \<not> settle_at p \<le> now e) (pending e)\<rparr>)"

definition tick :: "dashboard_page \<Rightarrow> dashboard_page" where
  "tick e = settle_requests (run_timers e)"

fun advance :: "nat \<Rightarrow> dashboard_page \<Rightarrow> dashboard_page" where
  "advance 0 e = e"
| "advance (Suc n) e = advance n (tick e)"

text \<open>A page that is not mounted: no timer is registered and no request is under way
  (the next free handle and the loads invoked so far are arbitrary).\<close>

definition idle_page ::
  "nat \<Rightarrow> nat \<Rightarrow> nat list \<Rightarrow> world \<Rightarrow> ApiService \<Rightarrow> nat \<Rightarrow> dashboard_page" where
  "idle_page t h calls w this ms =
     \<lparr> now = t, timers = [], next_handle = h, interval = None, mounted = False,
       crashed = False, view_state = initial_dashboard, pending = [], load_calls = calls,
       outside = w, api = this, rtt = ms \<rparr>"

section \<open>Reference notions and sample inputs\<close>

text \<open>What a method call resolves or rejects with, whatever the console and wire held.\<close>

definition empty_world :: world where
  "empty_world = \<lparr> console = [], wire = [] \<rparr>"

definition fetched :: "ApiService \<Rightarrow> api_call \<Rightarrow> axios_error + jsval" where
  "fetched this c = fst (invoke this c empty_world)"

text \<open>A fetch whose envelope had a truthy \<open>success\<close>, and the \<open>data\<close> of its envelope.\<close>

definition envelope_success :: "axios_error + jsval \<Rightarrow> bool" where
  "envelope_success r = (case r of Inl e \<Rightarrow> False | Inr v \<Rightarrow> truthy (optprop v ''success''))"

definition envelope_data :: "axios_error + jsval \<Rightarrow> jsval" where
  "envelope_data r = (case r of Inl e \<Rightarrow> JUndefined | Inr v \<Rightarrow> optprop v ''data'')"

text \<open>A fetch that resolved, and one that resolved with a value other than
  \<open>undefined\<close> and \<open>null\<close>.\<close>

definition resolved :: "axios_error + jsval \<Rightarrow> bool" where
  "resolved r = (case r of Inl e \<Rightarrow> False | Inr v \<Rightarrow> True)"

definition readable :: "axios_error + jsval \<Rightarrow> bool" where
  "readable r = (case r of Inl e \<Rightarrow> False | Inr v \<Rightarrow> \<not> nullish v)"

text \<open>The data of the most recent element that qualifies, the initial value when none does.\<close>

definition latest :: "('a \<Rightarrow> bool) \<Rightarrow> ('a \<Rightarrow> jsval) \<Rightarrow> jsval \<Rightarrow> 'a list \<Rightarrow> jsval" where
  "latest ok dat init xs = (case filter ok (rev xs) of [] \<Rightarrow> init | x # rest \<Rightarrow> dat x)"

text \<open>What \<open>request\<close> makes of the outcome of the HTTP call.\<close>

definition error_body :: "axios_error \<Rightarrow> jsval" where
  "error_body error = (case err_response error of None \<Rightarrow> JUndefined | Some r \<Rightarrow> resp_data r)"

definition normalized :: "axios_error + http_response \<Rightarrow> axios_error + jsval" where
  "normalized outcome =
     (case outcome of
        Inr response \<Rightarrow> Inr (resp_data response)
      | Inl error \<Rightarrow> if truthy (error_body error) then Inr (error_body error) else Inl error)"

text \<open>Sample services.\<close>

definition service :: "network \<Rightarrow> ApiService" where
  "service n = \<lparr> vite_api_url = None, net = n \<rparr>"

definition answer :: "nat \<Rightarrow> jsval \<Rightarrow> request_config \<Rightarrow> http_response" where
  "answer code body config = \<lparr> resp_status = code, resp_data = body, resp_config = config \<rparr>"

definition network_error :: axios_error where
  "network_error = \<lparr> err_message = ''Network Error'', err_response = None \<rparr>"

definition status_error :: "nat \<Rightarrow> jsval \<Rightarrow> request_config \<Rightarrow> axios_error" where
  "status_error code body config =
     \<lparr> err_message = ''Request failed with status code '' @ toString code,
       err_response = Some (answer code body config) \<rparr>"

text \<open>The server answers every request with status 200 and the given body.\<close>

definition replying :: "jsval \<Rightarrow> network" where
  "replying body config = Inr (answer 200 body config)"

text \<open>The server answers every request with an error status and the given body.\<close>

definition failing :: "nat \<Rightarrow> jsval \<Rightarrow> network" where
  "failing code body config = Inl (status_error code body config)"

text \<open>No response arrives.\<close>

definition offline :: network where
  "offline config = Inl network_error"

text \<open>Only the system-information endpoint answers.\<close>

definition info_only :: network where
  "info_only config =
     (if cfg_url config = ''/api/v1/system/info''
      then Inr (answer 200 (JObj [(''success'', JBool True),
                                   (''data'', JObj [(''os'', JStr ''Linux'')])]) config)
      else Inl network_error)"

definition sample_clock :: send_clock where
  "sample_clock = \<lparr> now_user = 1000, date_user = 1000, now_reply = 1250, date_reply = 1250 \<rparr>"

definition typing :: "string \<Rightarrow> chat_state" where
  "typing s = (initial_chat 0)\<lparr>input := s\<rparr>"

text \<open>
  The page \<open>d\<close> milliseconds after a mount at \<open>t0\<close>, while its first request is still
  under way: mounted, showing the spinner, one interval timer registered, one load invoked
  and one request issued per period begun, the first request due to settle at \<open>t0 + ms\<close>
  and every later one after it.
\<close>

definition polling ::
  "nat \<Rightarrow> nat \<Rightarrow> nat list \<Rightarrow> world \<Rightarrow> ApiService \<Rightarrow> nat \<Rightarrow> nat \<Rightarrow> dashboard_page \<Rightarrow> bool" where
  "polling t0 h calls w this ms d e \<longleftrightarrow>
     now e = t0 + d \<and>
     timers e = [\<lparr> handle = h, delay = 5000, due = t0 + 5000 * Suc (d div 5000),
                   callback = LoadDashboardData \<rparr>] \<and>
     interval e = Some h \<and> mounted e \<and> \<not> crashed e \<and> loading (view_state e) \<and>
     api e = this \<and> rtt e = ms \<and>
     load_calls e = calls @ map (\<lambda>k. t0 + 5000 * k) [0..<Suc (d div 5000)] \<and>
     wire (outside e) = wire w @ replicate (Suc (d div 5000)) (config_of this GetSystemStatus) \<and>
     (\<exists>p rest. pending e = p # rest \<and> settle_at p = t0 + ms \<and>
                (\<forall>q\<in>set rest. t0 + ms < settle_at q))"

text \<open>The two fetches of one load of the SystemInfo page.\<close>

definition both :: "ApiService \<Rightarrow> (axios_error + jsval) \<times> (axios_error + jsval)" where
  "both s = (fetched s GetSystemInfo, fetched s GetSystemStatus)"

text \<open>The content of the assistant message, by the outcome of \<open>executeCommand\<close>.\<close>

definition reply_content :: "axios_error + jsval \<Rightarrow> jsval" where
  "reply_content r =
     (case r of
        Inl error \<Rightarrow> JStr ''Sorry, I encountered an error while processing your request.''
      | Inr response \<Rightarrow>
          if nullish response
          then JStr ''Sorry, I encountered an error while processing your request.''
          else if truthy (optprop response ''success'') \<and> truthy (optprop response ''data'')
          then js_or (optprop (optprop response ''data'') ''response'')
                     (JStr ''Command executed successfully'')
          else js_or (optprop (optprop response ''error'') ''message'')
                     (JStr ''Sorry, something went wrong.''))"

text \<open>Sample bodies and services.\<close>

definition status_body :: jsval where
  "status_body =
     JObj [(''success'', JBool True), (''data'', JObj [(''status'', JStr ''operational'')])]"

definition unknown_command_body :: jsval where
  "unknown_command_body =
     JObj [(''success'', JBool False),
           (''error'', JObj [(''error_code'', JStr ''COMMAND_FAILED''),
                             (''message'', JStr ''Unknown command'')])]"

definition empty_message_body :: jsval where
  "empty_message_body =
     JObj [(''success'', JBool False),
           (''error'', JObj [(''error_code'', JStr ''COMMAND_FAILED''), (''message'', JStr [])])]"

definition zero_body :: ApiService where
  "zero_body = service (failing 500 (JNum 0))"

definition zero_body_error :: axios_error where
  "zero_body_error = status_error 500 (JNum 0) (config_of zero_body GetSystemStatus)"

section \<open>Properties of the API client\<close>

text \<open>
  The interceptors only write to the console, so what \<open>this.client.request\<close> settles
  with is what the network settled with, and each call puts exactly one request on the
  wire.
\<close>

lemma client_request_result: "fst (client_request this config w) = net this config"
  by (simp add: client_request_def request_onFulfilled_def response_onFulfilled_def
      response_onRejected_def Let_def split: sum.splits)

lemma client_request_wire: "wire (snd (client_request this config w)) = wire w @ [config]"
  by (simp add: client_request_def request_onFulfilled_def response_onFulfilled_def
      response_onRejected_def Let_def split: sum.splits)

lemma request_result:
  "fst (request this m u d p w) = normalized (net this (client_config this m u d p))"
proof -
  obtain r w' where cr: "client_request this (client_config this m u d p) w = (r, w')"
    by (cases "client_request this (client_config this m u d p) w")
  have "r = net this (client_config this m u d p)"
    using client_request_result [of this "client_config this m u d p" w] cr by simp
  then show ?thesis
    by (simp add: request_def cr normalized_def error_body_def split: sum.splits)
qed

lemma request_wire:
  "wire (snd (request this m u d p w)) = wire w @ [client_config this m u d p]"
proof -
  obtain r w' where cr: "client_request this (client_config this m u d p) w = (r, w')"
    by (cases "client_request this (client_config this m u d p) w")
  have "wire w' = wire w @ [client_config this m u d p]"
    using client_request_wire [of this "client_config this m u d p" w] cr by simp
  then show ?thesis
    by (simp add: request_def cr split: sum.splits)
qed

lemma invoke_result: "fst (invoke this c w) = normalized (net this (config_of this c))"
  by (cases "endpoint c") (simp add: invoke_def config_of_def request_result)

lemma invoke_wire: "wire (snd (invoke this c w)) = wire w @ [config_of this c]"
  by (cases "endpoint c") (simp add: invoke_def config_of_def request_wire)

lemma invoke_fetched: "fst (invoke this c w) = fetched this c"
  by (simp add: fetched_def invoke_result)

lemma fetched_net: "fetched this c = normalized (net this (config_of this c))"
  by (simp add: fetched_def invoke_result)

lemma url_config_of: "cfg_url (config_of this c) = fst (snd (endpoint c))"
  by (cases "endpoint c") (simp add: config_of_def client_config_def)

text \<open>
  C1 (as amended). Every API-client method resolves to the parsed response body, as it is,
  when the HTTP call succeeds. When the HTTP call fails and the error response carries a
  truthy body (every object, hence every envelope \<open>{success, data?, error?}\<close>), that body is
  returned instead of throwing. An error without a response, or whose response body is
  falsy (\<open>undefined\<close>, \<open>null\<close>, \<open>false\<close>, \<open>0\<close>, the empty string), is re-thrown unchanged.
\<close>

theorem api_method_envelope:
  "fst (invoke this c w) =
     (case net this (config_of this c) of
        Inr response \<Rightarrow> Inr (resp_data response)
      | Inl error \<Rightarrow>
          (case err_response error of
             None \<Rightarrow> Inl error
           | Some r \<Rightarrow> if truthy (resp_data r) then Inr (resp_data r) else Inl error))"
  by (simp add: invoke_result normalized_def error_body_def split: sum.splits option.splits)

text \<open>
  The three outcomes on sample services: a success, a failure with an envelope as body,
  and a failure without response.
\<close>

theorem api_method_envelope_witness:
  "fst (invoke (service (replying status_body)) GetSystemStatus empty_world) = Inr status_body \<and>
   fst (invoke (service (failing 404 unknown_command_body)) GetHealth empty_world)
     = Inr unknown_command_body \<and>
   fst (invoke (service offline) GetHealth empty_world) = Inl network_error"
  using api_method_envelope [of "service (replying status_body)" GetSystemStatus empty_world]
    api_method_envelope [of "service (failing 404 unknown_command_body)" GetHealth empty_world]
    api_method_envelope [of "service offline" GetHealth empty_world]
  by (simp add: service_def replying_def failing_def offline_def answer_def status_error_def
      network_error_def unknown_command_body_def)

text \<open>
  C1 as stated fails. The server answers with status 500 and the JSON body \<open>0\<close>: the error
  response carries a body, yet the method re-throws the error instead of returning it.
\<close>

theorem falsy_error_body_rethrown:
  "net zero_body (config_of zero_body GetSystemStatus) = Inl zero_body_error \<and>
   error_body zero_body_error = JNum 0 \<and>
   fst (invoke zero_body GetSystemStatus empty_world) = Inl zero_body_error"
proof -
  have n: "net zero_body (config_of zero_body GetSystemStatus) = Inl zero_body_error"
    by (simp add: zero_body_def service_def failing_def zero_body_error_def)
  have b: "error_body zero_body_error = JNum 0"
    by (simp add: zero_body_error_def status_error_def error_body_def answer_def)
  show ?thesis
    by (simp add: invoke_result n b normalized_def)
qed

text \<open>
  C3. \<open>searchFiles\<close> hands axios a POST to \<open>/api/v1/files/search\<close> whose body has the
  fields \<open>query\<close>, \<open>file_type\<close>, \<open>max_results\<close> and \<open>search_locations\<close>, in this order, for
  every combination of provided and omitted optional arguments: a provided argument is the
  value of its field, an omitted one leaves its field \<open>undefined\<close>. Exactly this request
  is put on the wire, and its method and path are those the README documents for the
  file search.
\<close>

theorem searchFiles_request:
  "config_of this (SearchFiles query fileType maxResults searchLocations) =
     \<lparr> baseURL = base_url (vite_api_url this), timeout = 30000,
       headers = [(''Content-Type'', ''application/json'')],
       cfg_method = ''POST'',
       cfg_url = ''/api/v1/files/search'',
       cfg_data =
         JObj [(''query'', JStr query),
               (''file_type'', case fileType of None \<Rightarrow> JUndefined | Some t \<Rightarrow> JStr t),
               (''max_results'', case maxResults of None \<Rightarrow> JUndefined | Some n \<Rightarrow> JNum n),
               (''search_locations'',
                case searchLocations of None \<Rightarrow> JUndefined | Some ls \<Rightarrow> JArr (map JStr ls))],
       cfg_params = JUndefined \<rparr>
   \<and> (cfg_method (config_of this (SearchFiles query fileType maxResults searchLocations)),
       cfg_url (config_of this (SearchFiles query fileType maxResults searchLocations)))
       \<in> set readme_endpoints
   \<and> wire (snd (invoke this (SearchFiles query fileType maxResults searchLocations) w)) =
       wire w @ [config_of this (SearchFiles query fileType maxResults searchLocations)]"
proof -
  have "config_of this (SearchFiles query fileType maxResults searchLocations) =
     \<lparr> baseURL = base_url (vite_api_url this), timeout = 30000,
       headers = [(''Content-Type'', ''application/json'')],
       cfg_method = ''POST'',
       cfg_url = ''/api/v1/files/search'',
       cfg_data =
         JObj [(''query'', JStr query),
               (''file_type'', case fileType of None \<Rightarrow> JUndefined | Some t \<Rightarrow> JStr t),
               (''max_results'', case maxResults of None \<Rightarrow> JUndefined | Some n \<Rightarrow> JNum n),
               (''search_locations'',
                case searchLocations of None \<Rightarrow> JUndefined | Some ls \<Rightarrow> JArr (map JStr ls))],
       cfg_params = JUndefined \<rparr>"
    by (simp add: config_of_def client_config_def optional_def strings_def split: option.splits)
  moreover have "(cfg_method (config_of this (SearchFiles query fileType maxResults searchLocations)),
       cfg_url (config_of this (SearchFiles query fileType maxResults searchLocations)))
       \<in> set readme_endpoints"
    by (simp add: config_of_def client_config_def readme_endpoints_def)
  ultimately show ?thesis
    by (simp only: invoke_wire)
qed

theorem searchFiles_request_witness:
  "cfg_method (config_of (service offline) (SearchFiles ''report'' (Some ''pdf'') None None))
     = ''POST'' \<and>
   cfg_url (config_of (service offline) (SearchFiles ''report'' (Some ''pdf'') None None))
     = ''/api/v1/files/search'' \<and>
   cfg_data (config_of (service offline) (SearchFiles ''report'' (Some ''pdf'') None None))
     = JObj [(''query'', JStr ''report''), (''file_type'', JStr ''pdf''),
             (''max_results'', JUndefined), (''search_locations'', JUndefined)]"
  using searchFiles_request [of "service offline" "''report''" "Some ''pdf''" None None empty_world]
  by simp

text \<open>
  C4 (as amended). Every method of the API client issues exactly one HTTP request.
  \<open>getHealth\<close> targets \<open>/health\<close> and \<open>getApiDocs\<close> targets \<open>/api/docs\<close>; every other method
  targets a path that starts with \<open>/api/v1/commands/\<close>, \<open>/api/v1/system/\<close>,
  \<open>/api/v1/files/\<close> or \<open>/api/v1/media/\<close>. These methods are all the methods there are.
\<close>

theorem endpoints_namespaces:
  "wire (snd (invoke this c w)) = wire w @ [config_of this c] \<and>
   (if c = GetHealth then cfg_url (config_of this c) = ''/health''
    else if c = GetApiDocs then cfg_url (config_of this c) = ''/api/docs''
    else versioned (cfg_url (config_of this c)))"
proof -
  have "if c = GetHealth then fst (snd (endpoint c)) = ''/health''
    else if c = GetApiDocs then fst (snd (endpoint c)) = ''/api/docs''
    else versioned (fst (snd (endpoint c)))"
    by (cases c) (simp_all add: versioned_def)
  then show ?thesis
    by (simp add: invoke_wire url_config_of)
qed

theorem endpoints_namespaces_witness:
  "versioned (cfg_url (config_of (service offline) (GetFileInfo ''a/b''))) \<and>
   wire (snd (invoke (service offline) (GetFileInfo ''a/b'') empty_world)) =
     [config_of (service offline) (GetFileInfo ''a/b'')]"
  using endpoints_namespaces [of "service offline" "GetFileInfo ''a/b''" empty_world]
  by (simp add: empty_world_def)

text \<open>
  C4 as stated fails: the request of \<open>getHealth\<close> goes to \<open>/health\<close>, outside the versioned
  namespaces.
\<close>

theorem health_endpoint_unversioned:
  "cfg_url (config_of (service offline) GetHealth) = ''/health'' \<and>
   \<not> versioned (cfg_url (config_of (service offline) GetHealth)) \<and>
   wire (snd (invoke (service offline) GetHealth empty_world)) =
     [config_of (service offline) GetHealth]"
  by (simp add: url_config_of versioned_def invoke_wire empty_world_def)

text \<open>
  C8. The request and response interceptors are logging-only: each handler returns
  (or rejects with) its argument unchanged and leaves the wire alone, so the
  configuration that reaches the network is the one \<open>request\<close> built, and the outcome
  handed back is the one the network produced.
\<close>

theorem interceptors_logging_only:
  "fst (request_onFulfilled config w) = Inr config \<and>
   wire (snd (request_onFulfilled config w)) = wire w \<and>
   fst (request_onRejected error w) = Inl error \<and>
   wire (snd (request_onRejected error w)) = wire w \<and>
   fst (response_onFulfilled response w) = Inr response \<and>
   wire (snd (response_onFulfilled response w)) = wire w \<and>
   fst (response_onRejected error w) = Inl error \<and>
   wire (snd (response_onRejected error w)) = wire w \<and>
   fst (client_request this config w) = net this config \<and>
   wire (snd (client_request this config w)) = wire w @ [config]"
  by (simp add: request_onFulfilled_def request_onRejected_def response_onFulfilled_def
      response_onRejected_def client_request_result client_request_wire)

theorem interceptors_logging_only_witness:
  "fst (request_onFulfilled (config_of (service offline) GetHealth) empty_world)
     = Inr (config_of (service offline) GetHealth) \<and>
   fst (response_onRejected network_error empty_world) = Inl network_error \<and>
   wire (snd (client_request (service offline) (config_of (service offline) GetHealth) empty_world))
     = [config_of (service offline) GetHealth]"
  using interceptors_logging_only [of "config_of (service offline) GetHealth" empty_world
      network_error "answer 200 JNull (config_of (service offline) GetHealth)" "service offline"]
  by (simp add: empty_world_def)

section \<open>Properties of the Chat page\<close>

lemma dropWhile_ws_empty: "dropWhile is_ws s = [] \<longleftrightarrow> (\<forall>c\<in>set s. is_ws c)"
  by (simp add: dropWhile_eq_Nil_conv)

lemma trim_empty: "trim s = [] \<longleftrightarrow> (\<forall>c\<in>set s. is_ws c)"
proof
  assume "trim s = []"
  then have all: "\<forall>c\<in>set (dropWhile is_ws s). is_ws c"
    by (simp add: trim_def dropWhile_eq_Nil_conv)
  show "\<forall>c\<in>set s. is_ws c"
  proof (cases "dropWhile is_ws s")
    case Nil
    then show ?thesis by (simp add: dropWhile_eq_Nil_conv)
  next
    case (Cons x xs)
    then have "\<not> is_ws x" using hd_dropWhile [of is_ws s] by simp
    moreover have "is_ws x" using all Cons by simp
    ultimately show ?thesis by simp
  qed
next
  assume "\<forall>c\<in>set s. is_ws c"
  then have "dropWhile is_ws s = []" by simp
  then have "trim s = rev (dropWhile is_ws (rev []))" by (simp only: trim_def)
  then show "trim s = []" by simp
qed

lemma trim_hi: "trim ''hi'' = ''hi''"
  by (simp add: trim_def is_ws_def)

lemma truthy_not_nullish: "truthy v \<Longrightarrow> \<not> nullish v"
  by (cases v) simp_all

lemma optprop_nullish: "nullish v \<Longrightarrow> optprop v k = JUndefined"
  by (cases v) simp_all

lemma reply_type: "msg_type (reply_message clk r) = Assistant"
  by (cases r)
     (auto simp: reply_message_def try_reply_def caught_reply_def getprop_def
           split: option.splits Option.bind_splits if_splits)

lemma reply_message_content: "content (reply_message clk r) = reply_content r"
  by (cases r)
     (auto simp: reply_message_def reply_content_def try_reply_def caught_reply_def getprop_def
           truthy_not_nullish
           split: option.splits Option.bind_splits if_splits)

lemma send_result:
  "trim (input st) \<noteq> [] \<Longrightarrow> \<not> isLoading st \<Longrightarrow>
   fst (handleSendMessage this clk st w) =
     settle_send clk (fetched this (ExecuteCommand (command_request (userMessage clk st))))
       (begin_send clk st)"
  using invoke_fetched [of this "ExecuteCommand (command_request (userMessage clk st))" w]
  by (cases "invoke this (ExecuteCommand (command_request (userMessage clk st))) w")
     (simp add: handleSendMessage_def)

lemma send_wire:
  "trim (input st) \<noteq> [] \<Longrightarrow> \<not> isLoading st \<Longrightarrow>
   wire (snd (handleSendMessage this clk st w)) =
     wire w @ [config_of this (ExecuteCommand (command_request (userMessage clk st)))]"
  using invoke_wire [of this "ExecuteCommand (command_request (userMessage clk st))" w]
  by (cases "invoke this (ExecuteCommand (command_request (userMessage clk st))) w")
     (simp add: handleSendMessage_def)

text \<open>
  C9. When the input is empty or consists of white space only, or while a command is in
  flight (\<open>isLoading\<close>), \<open>handleSendMessage\<close> changes nothing: the messages, the input and
  the loading flag stay as they are, and no HTTP request is issued.
\<close>

theorem send_guard:
  "(\<forall>c\<in>set (input st). is_ws c) \<or> isLoading st \<Longrightarrow>
   handleSendMessage this clk st w = (st, w)"
  by (auto simp: handleSendMessage_def trim_empty)

text \<open>
  A white-space input, and a second send while the first is in flight.
\<close>

theorem send_guard_witness:
  "handleSendMessage (service offline) sample_clock (typing ''   '') empty_world
     = (typing ''   '', empty_world) \<and>
   handleSendMessage (service offline) sample_clock (begin_send sample_clock (typing ''hi''))
     empty_world = (begin_send sample_clock (typing ''hi''), empty_world)"
proof -
  have a: "(\<forall>c\<in>set (input (typing ''   '')). is_ws c) \<or> isLoading (typing ''   '')"
    by (simp add: typing_def is_ws_def)
  have b: "(\<forall>c\<in>set (input (begin_send sample_clock (typing ''hi''))). is_ws c)
     \<or> isLoading (begin_send sample_clock (typing ''hi''))"
    by (simp add: begin_send_def)
  show ?thesis
    using send_guard [OF a, of "service offline" sample_clock empty_world]
      send_guard [OF b, of "service offline" sample_clock empty_world]
    by simp
qed

text \<open>
  C10. The message list is append-only. The updates before the \<open>await\<close> append the user
  message, whose content is the trimmed input; the updates after it append one assistant
  message, whatever the state has become in between; a completed send appends exactly
  these two messages, in this order, and a send stopped by the guard appends nothing.
\<close>

theorem send_appends:
  "messages (begin_send clk st) = messages st @ [userMessage clk st] \<and>
   messages (settle_send clk r st') = messages st' @ [reply_message clk r] \<and>
   msg_type (userMessage clk st) = User \<and>
   content (userMessage clk st) = JStr (trim (input st)) \<and>
   msg_type (reply_message clk r) = Assistant \<and>
   messages (fst (handleSendMessage this clk st w)) =
     (if trim (input st) = [] \<or> isLoading st then messages st
      else messages st @
           [userMessage clk st,
            reply_message clk
              (fetched this (ExecuteCommand (command_request (userMessage clk st))))])"
proof -
  have "messages (fst (handleSendMessage this clk st w)) =
     (if trim (input st) = [] \<or> isLoading st then messages st
      else messages st @
           [userMessage clk st,
            reply_message clk
              (fetched this (ExecuteCommand (command_request (userMessage clk st))))])"
  proof (cases "trim (input st) = [] \<or> isLoading st")
    case True
    then show ?thesis by (auto simp: handleSendMessage_def)
  next
    case False
    then show ?thesis
      using send_result [of st this clk w]
      by (simp add: settle_send_def begin_send_def)
  qed
  then show ?thesis
    by (simp add: begin_send_def settle_send_def userMessage_def reply_type)
qed

theorem send_appends_witness:
  "map msg_type (messages (fst (handleSendMessage (service offline) sample_clock
      (typing ''  hi '') empty_world))) = [Assistant, User, Assistant] \<and>
   map content (drop 1 (messages (fst (handleSendMessage (service offline) sample_clock
      (typing ''  hi '') empty_world)))) =
     [JStr ''hi'', JStr ''Sorry, I encountered an error while processing your request.'']"
proof -
  have t: "trim ''  hi '' = ''hi''" by (simp add: trim_def is_ws_def)
  have f: "fetched (service offline) c = Inl network_error" for c
    by (simp add: fetched_net normalized_def service_def offline_def network_error_def
        error_body_def)
  have i: "input (typing ''  hi '') = ''  hi ''" "\<not> isLoading (typing ''  hi '')"
    "map msg_type (messages (typing ''  hi '')) = [Assistant]"
    "length (messages (typing ''  hi '')) = 1"
    by (simp_all add: typing_def initial_chat_def)
  show ?thesis
    using send_appends [of sample_clock "typing ''  hi ''" "Inl network_error"
        "typing ''  hi ''" "service offline" empty_world]
    by (simp add: i t f reply_message_def caught_reply_def)
qed

text \<open>
  C2 (as amended). Every send that passes the guard appends the user message and then
  exactly one assistant message, and issues exactly one HTTP request: nothing is retried.
  When \<open>executeCommand\<close> throws, or resolves to \<open>undefined\<close> or \<open>null\<close>, the content is
  \<open>Sorry, I encountered an error while processing your request.\<close> When it resolves to a
  value whose \<open>success\<close> or \<open>data\<close> is falsy, the content is the \<open>message\<close> of the error
  object when that message is truthy (for a string: not empty), and
  \<open>Sorry, something went wrong.\<close> otherwise.
\<close>

theorem failed_send_reply:
  "trim (input st) \<noteq> [] \<Longrightarrow> \<not> isLoading st \<Longrightarrow>
   messages (fst (handleSendMessage this clk st w)) =
     messages st @
       [userMessage clk st,
        reply_message clk (fetched this (ExecuteCommand (command_request (userMessage clk st))))] \<and>
   msg_type (reply_message clk (fetched this (ExecuteCommand (command_request (userMessage clk st)))))
     = Assistant \<and>
   content (reply_message clk (fetched this (ExecuteCommand (command_request (userMessage clk st)))))
     = reply_content (fetched this (ExecuteCommand (command_request (userMessage clk st)))) \<and>
   wire (snd (handleSendMessage this clk st w)) =
     wire w @ [config_of this (ExecuteCommand (command_request (userMessage clk st)))]"
  using send_result [of st this clk w] send_wire [of st this clk w]
  by (simp add: settle_send_def begin_send_def reply_type reply_message_content)

theorem failed_send_reply_witness:
  "trim (input (typing ''hi'')) \<noteq> [] \<and> \<not> isLoading (typing ''hi'') \<and>
   content (reply_message sample_clock
     (fetched (service (failing 400 unknown_command_body))
        (ExecuteCommand (command_request (userMessage sample_clock (typing ''hi''))))))
     = JStr ''Unknown command'' \<and>
   length (wire (snd (handleSendMessage (service (failing 400 unknown_command_body))
     sample_clock (typing ''hi'') empty_world))) = 1"
proof -
  have i: "trim (input (typing ''hi'')) \<noteq> []" "\<not> isLoading (typing ''hi'')"
    by (simp_all add: typing_def initial_chat_def trim_hi)
  have f: "fetched (service (failing 400 unknown_command_body)) c = Inr unknown_command_body" for c
    by (simp add: fetched_net normalized_def service_def failing_def status_error_def
        answer_def error_body_def) (simp add: unknown_command_body_def)
  have c: "reply_content (Inr unknown_command_body) = JStr ''Unknown command''"
    by (simp add: reply_content_def js_or_def unknown_command_body_def)
  show ?thesis
    using failed_send_reply [OF i, of "service (failing 400 unknown_command_body)"
        sample_clock empty_world] i
    by (simp add: f c empty_world_def)
qed

text \<open>
  C2 as stated fails. The failed command comes back with an error object whose message is
  the empty string: the message is present, yet the bubble shows the generic text.
\<close>

theorem empty_error_message_replaced:
  "fetched (service (failing 400 empty_message_body))
     (ExecuteCommand (command_request (userMessage sample_clock (typing ''hi''))))
     = Inr empty_message_body \<and>
   optprop (optprop empty_message_body ''error'') ''message'' = JStr [] \<and>
   map content (drop 1 (messages (fst (handleSendMessage
       (service (failing 400 empty_message_body)) sample_clock (typing ''hi'') empty_world)))) =
     [JStr ''hi'', JStr ''Sorry, something went wrong.'']"
proof -
  have f: "fetched (service (failing 400 empty_message_body)) c = Inr empty_message_body" for c
    by (simp add: fetched_net normalized_def service_def failing_def status_error_def
        answer_def error_body_def) (simp add: empty_message_body_def)
  have m: "optprop (optprop empty_message_body ''error'') ''message'' = JStr []"
    by (simp add: empty_message_body_def)
  have c: "reply_content (Inr empty_message_body) = JStr ''Sorry, something went wrong.''"
    by (simp add: reply_content_def js_or_def m) (simp add: empty_message_body_def)
  have i: "input (typing ''hi'') = ''hi''" "\<not> isLoading (typing ''hi'')"
    "length (messages (typing ''hi'')) = 1"
    by (simp_all add: typing_def initial_chat_def)
  have "fst (handleSendMessage (service (failing 400 empty_message_body)) sample_clock
          (typing ''hi'') empty_world) =
        settle_send sample_clock (Inr empty_message_body) (begin_send sample_clock (typing ''hi''))"
    using send_result [of "typing ''hi''" "service (failing 400 empty_message_body)"
        sample_clock empty_world]
    by (simp add: i trim_hi f)
  then show ?thesis
    by (simp add: f m settle_send_def begin_send_def i reply_message_content c
        userMessage_def trim_hi)
qed

section \<open>Properties of the status snapshots\<close>

lemma latest_Nil: "latest ok dat init [] = init"
  by (simp add: latest_def)

lemma latest_Cons:
  "latest ok dat init (x # xs) = latest ok dat (if ok x then dat x else init) xs"
  by (cases "filter ok (rev xs)") (simp_all add: latest_def)

lemma load_appStatus:
  "appStatus (fst (loadDashboardData this st w)) =
     (if envelope_success (fetched this GetSystemStatus)
      then envelope_data (fetched this GetSystemStatus) else appStatus st)"
proof -
  obtain r w' where inv: "invoke this GetSystemStatus w = (r, w')"
    by (cases "invoke this GetSystemStatus w")
  then have "fetched this GetSystemStatus = r"
    using invoke_fetched [of this GetSystemStatus w] by simp
  then show ?thesis
    by (cases r)
       (auto simp: loadDashboardData_def loadDashboardData_resume_def inv envelope_success_def
             envelope_data_def
             getprop_def Let_def optprop_nullish split: option.splits)
qed

lemma dashboard_loads_appStatus:
  "appStatus (fst (dashboard_loads svcs (st, w))) =
     latest envelope_success envelope_data (appStatus st)
       (map (\<lambda>s. fetched s GetSystemStatus) svcs)"
proof (induction svcs arbitrary: st w)
  case Nil
  then show ?case by (simp add: latest_Nil)
next
  case (Cons s rest)
  obtain st' w' where step: "loadDashboardData s st w = (st', w')"
    by (cases "loadDashboardData s st w")
  then have "appStatus st' =
     (if envelope_success (fetched s GetSystemStatus)
      then envelope_data (fetched s GetSystemStatus) else appStatus st)"
    using load_appStatus [of s st w] by simp
  then show ?case
    using Cons.IH [of st' w'] by (simp add: step latest_Cons)
qed

lemma load_systemInfo:
  "systemInfo (fst (loadSystemInfo this st w)) =
     (if resolved (fetched this GetSystemStatus) \<and> envelope_success (fetched this GetSystemInfo)
      then envelope_data (fetched this GetSystemInfo) else systemInfo st)"
proof -
  obtain r1 w1 where inv1: "invoke this GetSystemInfo w = (r1, w1)"
    by (cases "invoke this GetSystemInfo w")
  obtain r2 w2 where inv2: "invoke this GetSystemStatus w1 = (r2, w2)"
    by (cases "invoke this GetSystemStatus w1")
  have f1: "fetched this GetSystemInfo = r1"
    using invoke_fetched [of this GetSystemInfo w] inv1 by simp
  have f2: "fetched this GetSystemStatus = r2"
    using invoke_fetched [of this GetSystemStatus w1] inv2 by simp
  show ?thesis
    by (cases r1; cases r2)
       (auto simp: loadSystemInfo_def inv1 inv2 f1 f2 envelope_success_def envelope_data_def
             resolved_def finally_loaded_def getprop_def Let_def optprop_nullish split: option.splits)
qed

lemma load_sys_appStatus:
  "sys_appStatus (fst (loadSystemInfo this st w)) =
     (if readable (fetched this GetSystemInfo) \<and> envelope_success (fetched this GetSystemStatus)
      then envelope_data (fetched this GetSystemStatus) else sys_appStatus st)"
proof -
  obtain r1 w1 where inv1: "invoke this GetSystemInfo w = (r1, w1)"
    by (cases "invoke this GetSystemInfo w")
  obtain r2 w2 where inv2: "invoke this GetSystemStatus w1 = (r2, w2)"
    by (cases "invoke this GetSystemStatus w1")
  have f1: "fetched this GetSystemInfo = r1"
    using invoke_fetched [of this GetSystemInfo w] inv1 by simp
  have f2: "fetched this GetSystemStatus = r2"
    using invoke_fetched [of this GetSystemStatus w1] inv2 by simp
  show ?thesis
    by (cases r1; cases r2)
       (auto simp: loadSystemInfo_def inv1 inv2 f1 f2 envelope_success_def envelope_data_def
             readable_def finally_loaded_def getprop_def Let_def optprop_nullish split: option.splits)
qed

lemma systeminfo_loads_systemInfo:
  "systemInfo (fst (systeminfo_loads svcs (st, w))) =
     latest (\<lambda>p. resolved (snd p) \<and> envelope_success (fst p)) (\<lambda>p. envelope_data (fst p))
       (systemInfo st) (map both svcs)"
proof (induction svcs arbitrary: st w)
  case Nil
  then show ?case by (simp add: latest_Nil)
next
  case (Cons s rest)
  obtain st' w' where step: "loadSystemInfo s st w = (st', w')"
    by (cases "loadSystemInfo s st w")
  then have "systemInfo st' =
     (if resolved (fetched s GetSystemStatus) \<and> envelope_success (fetched s GetSystemInfo)
      then envelope_data (fetched s GetSystemInfo) else systemInfo st)"
    using load_systemInfo [of s st w] by simp
  then show ?case
    using Cons.IH [of st' w'] by (simp add: step latest_Cons both_def)
qed

lemma systeminfo_loads_appStatus:
  "sys_appStatus (fst (systeminfo_loads svcs (st, w))) =
     latest (\<lambda>p. readable (fst p) \<and> envelope_success (snd p)) (\<lambda>p. envelope_data (snd p))
       (sys_appStatus st) (map both svcs)"
proof (induction svcs arbitrary: st w)
  case Nil
  then show ?case by (simp add: latest_Nil)
next
  case (Cons s rest)
  obtain st' w' where step: "loadSystemInfo s st w = (st', w')"
    by (cases "loadSystemInfo s st w")
  then have "sys_appStatus st' =
     (if readable (fetched s GetSystemInfo) \<and> envelope_success (fetched s GetSystemStatus)
      then envelope_data (fetched s GetSystemStatus) else sys_appStatus st)"
    using load_sys_appStatus [of s st w] by simp
  then show ?case
    using Cons.IH [of st' w'] by (simp add: step latest_Cons both_def)
qed

text \<open>
  C5 (as amended). A snapshot starts as \<open>null\<close> on mount and is replaced only by a load
  that succeeds; a load that fails keeps the previous snapshot. After any sequence of
  loads, each completing before the next starts: the app status of the Dashboard is the
  data of the most recent status fetch whose envelope had a truthy \<open>success\<close>; the system
  information of the SystemInfo page is the data of the information fetch of the most
  recent load in which both fetches resolved and the information envelope had a truthy
  \<open>success\<close>; its app status is the data of the status fetch of the most recent load in
  which the information fetch resolved to a value other than \<open>undefined\<close> and \<open>null\<close>
  and the status envelope had a truthy \<open>success\<close>.
\<close>

theorem snapshots_latest:
  "appStatus (fst (dashboard_loads svcs (st, w))) =
     latest envelope_success envelope_data (appStatus st)
       (map (\<lambda>s. fetched s GetSystemStatus) svcs) \<and>
   systemInfo (fst (systeminfo_loads svcs (st', w))) =
     latest (\<lambda>p. resolved (snd p) \<and> envelope_success (fst p)) (\<lambda>p. envelope_data (fst p))
       (systemInfo st') (map both svcs) \<and>
   sys_appStatus (fst (systeminfo_loads svcs (st', w))) =
     latest (\<lambda>p. readable (fst p) \<and> envelope_success (snd p)) (\<lambda>p. envelope_data (snd p))
       (sys_appStatus st') (map both svcs) \<and>
   appStatus initial_dashboard = JNull \<and>
   systemInfo initial_systeminfo = JNull \<and>
   sys_appStatus initial_systeminfo = JNull"
  by (simp add: dashboard_loads_appStatus systeminfo_loads_systemInfo systeminfo_loads_appStatus
      initial_dashboard_def initial_systeminfo_def)

theorem snapshots_latest_witness:
  "appStatus (fst (dashboard_loads [service (replying status_body), service offline]
      (initial_dashboard, empty_world))) = JObj [(''status'', JStr ''operational'')]"
proof -
  have a: "fetched (service (replying status_body)) GetSystemStatus = Inr status_body"
    by (simp add: fetched_net normalized_def service_def replying_def answer_def)
  have b: "fetched (service offline) GetSystemStatus = Inl network_error"
    by (simp add: fetched_net normalized_def service_def offline_def network_error_def
        error_body_def)
  have "appStatus (fst (dashboard_loads [service (replying status_body), service offline]
      (initial_dashboard, empty_world))) =
    latest envelope_success envelope_data (appStatus initial_dashboard)
      (map (\<lambda>s. fetched s GetSystemStatus) [service (replying status_body), service offline])"
    using snapshots_latest [of "[service (replying status_body), service offline]"
        initial_dashboard empty_world initial_systeminfo]
    by (rule conjunct1)
  also have "\<dots> = JObj [(''status'', JStr ''operational'')]"
    by (simp add: a b latest_def envelope_success_def envelope_data_def)
       (simp add: status_body_def)
  finally show ?thesis .
qed

text \<open>
  C5 as stated fails on the SystemInfo page. The information fetch resolves with
  \<open>success: true\<close> while the status fetch of the same load is rejected: the information
  snapshot stays \<open>null\<close>, not the data of that most recent successful fetch.
\<close>

theorem resolved_snapshot_dropped:
  "envelope_success (fetched (service info_only) GetSystemInfo) \<and>
   envelope_data (fetched (service info_only) GetSystemInfo) = JObj [(''os'', JStr ''Linux'')] \<and>
   systemInfo (fst (loadSystemInfo (service info_only) initial_systeminfo empty_world)) = JNull"
proof -
  have a: "fetched (service info_only) GetSystemInfo =
      Inr (JObj [(''success'', JBool True), (''data'', JObj [(''os'', JStr ''Linux'')])])"
    by (simp add: fetched_net normalized_def url_config_of service_def info_only_def answer_def)
  have b: "fetched (service info_only) GetSystemStatus = Inl network_error"
    by (simp add: fetched_net normalized_def url_config_of service_def info_only_def
        network_error_def error_body_def)
  show ?thesis
    by (simp add: load_systemInfo a b envelope_success_def envelope_data_def resolved_def
        initial_systeminfo_def)
qed

section \<open>Properties of the polling timer\<close>

lemma advance_Suc_right: "advance (Suc n) e = tick (advance n e)"
  by (induction n arbitrary: e) simp_all

lemma advance_add: "advance (m + n) e = advance n (advance m e)"
  by (induction m arbitrary: e) simp_all

lemma due_step_aux:
  "(t0 + 5000 * Suc q = Suc (t0 + (5000 * q + r))) = (Suc r = (5000::nat))"
  by arith

lemma due_step:
  "(t0 + 5000 * Suc (d div 5000) = Suc (t0 + d)) = (Suc d mod 5000 = 0)"
proof -
  have split: "5000 * (d div 5000) + d mod 5000 = d" by simp
  have "(Suc d mod 5000 = 0) = (Suc (d mod 5000) = 5000)"
    by (simp add: mod_Suc)
  then show ?thesis
    using due_step_aux [of t0 "d div 5000" "d mod 5000"] by (simp only: split)
qed

lemma next_due:
  "t0 + 5000 * Suc k = Suc (t0 + d) \<Longrightarrow> Suc (t0 + d) + 5000 = t0 + 5000 * Suc (Suc k)"
  by simp

lemma resume_loading: "\<not> loading (fst (loadDashboardData_resume r st w))"
  by (cases r) (auto simp: loadDashboardData_resume_def Let_def split: option.splits)

lemma resume_wire: "wire (snd (loadDashboardData_resume r st w)) = wire w"
  by (cases r)
     (auto simp: loadDashboardData_resume_def console_error_def Let_def split: option.splits)

lemma render_loaded: "\<not> loading st \<Longrightarrow> render st = None"
  by (simp add: render_def view_icons_def dashboard_imports_def)

lemma render_loading: "loading st \<Longrightarrow> render st = Some Spinner"
  by (simp add: render_def)

lemma call_load_fields:
  "now (call_load e) = now e"
  "timers (call_load e) = timers e"
  "next_handle (call_load e) = next_handle e"
  "interval (call_load e) = interval e"
  "mounted (call_load e) = mounted e"
  "crashed (call_load e) = crashed e"
  "view_state (call_load e) = view_state e"
  "api (call_load e) = api e"
  "rtt (call_load e) = rtt e"
  "load_calls (call_load e) = load_calls e @ [now e]"
  by (cases "invoke (api e) GetSystemStatus (outside e)"; simp add: call_load_def)+

lemma call_load_wire:
  "wire (outside (call_load e)) = wire (outside e) @ [config_of (api e) GetSystemStatus]"
  using invoke_wire [of "api e" GetSystemStatus "outside e"]
  by (cases "invoke (api e) GetSystemStatus (outside e)") (simp add: call_load_def)

lemma call_load_pending:
  "\<exists>p. pending (call_load e) = pending e @ [p] \<and> settle_at p = now e + rtt e"
  by (cases "invoke (api e) GetSystemStatus (outside e)") (simp add: call_load_def)


lemma polling_mount: "polling t0 h calls w this ms 0 (mount (idle_page t0 h calls w this ms))"
proof -
  define e0 where "e0 = (idle_page t0 h calls w this ms)
      \<lparr>mounted := True, crashed := False, view_state := initial_dashboard\<rparr>"
  have r: "rerender e0 = e0"
    by (simp add: rerender_def render_loading e0_def idle_page_def initial_dashboard_def)
  have m: "mount (idle_page t0 h calls w this ms) =
      (call_load e0)\<lparr>timers := timers (call_load e0) @
           [\<lparr> handle = next_handle (call_load e0), delay = 5000,
              due = now (call_load e0) + 5000, callback = LoadDashboardData \<rparr>],
        next_handle := Suc (next_handle (call_load e0)), interval := Some (next_handle (call_load e0))\<rparr>"
    unfolding mount_def e0_def [symmetric] r
    by (simp add: setInterval_def Let_def) (simp add: e0_def idle_page_def)
  have f: "now e0 = t0" "timers e0 = []" "next_handle e0 = h" "mounted e0" "\<not> crashed e0"
    "loading (view_state e0)" "api e0 = this" "rtt e0 = ms" "load_calls e0 = calls"
    "outside e0 = w" "pending e0 = []"
    by (simp_all add: e0_def idle_page_def initial_dashboard_def)
  obtain p where p: "pending (call_load e0) = pending e0 @ [p]" "settle_at p = now e0 + rtt e0"
    using call_load_pending [of e0] by blast
  show ?thesis
    unfolding polling_def m
    using p by (simp add: call_load_fields call_load_wire f)
qed

lemma run_timers_polling:
  assumes "polling t0 h calls w this ms d e"
  shows "polling t0 h calls w this ms (Suc d) (run_timers e)"
proof -
  define k where "k = d div 5000"
  from assms obtain p rest where
    f: "now e = t0 + d"
       "timers e = [\<lparr> handle = h, delay = 5000, due = t0 + 5000 * Suc k,
                      callback = LoadDashboardData \<rparr>]"
       "interval e = Some h" "mounted e" "\<not> crashed e" "loading (view_state e)"
       "api e = this" "rtt e = ms"
       "load_calls e = calls @ map (\<lambda>k. t0 + 5000 * k) [0..<Suc k]"
       "wire (outside e) = wire w @ replicate (Suc k) (config_of this GetSystemStatus)"
       "pending e = p # rest" "settle_at p = t0 + ms" "\<forall>q\<in>set rest. t0 + ms < settle_at q"
    unfolding polling_def k_def by blast
  show ?thesis
  proof (cases "Suc d mod 5000 = 0")
    case True
    then have q: "Suc d div 5000 = Suc k" by (simp add: div_Suc k_def)
    have fire: "t0 + 5000 * Suc k = Suc (t0 + d)"
      unfolding k_def using True by (rule iffD2 [OF due_step])
    define e1 where "e1 = e\<lparr>now := Suc (t0 + d),
        timers := [\<lparr> handle = h, delay = 5000, due = Suc (t0 + d) + 5000,
                     callback = LoadDashboardData \<rparr>]\<rparr>"
    have r: "run_timers e = call_load e1"
      by (simp add: run_timers_def Let_def f fire e1_def del: mult_Suc_right)
    have g: "now e1 = Suc (t0 + d)"
      "timers e1 = [\<lparr> handle = h, delay = 5000, due = t0 + 5000 * Suc (Suc k),
                      callback = LoadDashboardData \<rparr>]"
      "interval e1 = Some h" "mounted e1" "\<not> crashed e1" "loading (view_state e1)"
      "api e1 = this" "rtt e1 = ms"
      "load_calls e1 = calls @ map (\<lambda>k. t0 + 5000 * k) [0..<Suc k]"
      "wire (outside e1) = wire w @ replicate (Suc k) (config_of this GetSystemStatus)"
      "pending e1 = p # rest"
      using f next_due [OF fire] by (simp_all add: e1_def del: mult_Suc_right)
    obtain n where n: "pending (call_load e1) = pending e1 @ [n]" "settle_at n = now e1 + rtt e1"
      using call_load_pending [of e1] by blast
    have calls': "calls @ map (\<lambda>k. t0 + 5000 * k) [0..<Suc (Suc k)] =
       (calls @ map (\<lambda>k. t0 + 5000 * k) [0..<Suc k]) @ [Suc (t0 + d)]"
      using fire by (simp del: mult_Suc_right)
    have wire': "replicate (Suc (Suc k)) (config_of this GetSystemStatus) =
       replicate (Suc k) (config_of this GetSystemStatus) @ [config_of this GetSystemStatus]"
      by (simp only: replicate_append_same) simp
    have later: "\<forall>q\<in>set (rest @ [n]). t0 + ms < settle_at q"
      using f(13) n(2) g(1) g(8) by simp
    have "pending (call_load e1) = p # (rest @ [n])"
      using n(1) g(11) by simp
    then show ?thesis
      unfolding polling_def r q
      using later f(12)
      by (simp only: call_load_fields call_load_wire g calls' wire' add_Suc_right) auto
  next
    case False
    then have q: "Suc d div 5000 = k" by (simp add: div_Suc k_def)
    have quiet: "t0 + 5000 * Suc k \<noteq> Suc (t0 + d)"
    proof
      assume "t0 + 5000 * Suc k = Suc (t0 + d)"
      then have "Suc d mod 5000 = 0"
        unfolding k_def by (rule iffD1 [OF due_step])
      with False show False by simp
    qed
    have r: "run_timers e = e\<lparr>now := Suc (t0 + d),
        timers := [\<lparr> handle = h, delay = 5000, due = t0 + 5000 * Suc k,
                     callback = LoadDashboardData \<rparr>]\<rparr>"
      using quiet by (simp add: run_timers_def Let_def f del: mult_Suc_right)
    show ?thesis
      unfolding polling_def r q
      using f by (simp del: mult_Suc_right) 
  qed
qed

lemma settle_requests_quiet:
  assumes "polling t0 h calls w this ms d e" and "d < ms"
  shows "settle_requests e = e"
proof -
  from assms(1) obtain p rest where
    f: "now e = t0 + d" "pending e = p # rest" "settle_at p = t0 + ms"
       "\<forall>q\<in>set rest. t0 + ms < settle_at q"
    unfolding polling_def by blast
  have none: "\<forall>q\<in>set (pending e). \<not> settle_at q \<le> now e"
    using f assms(2) by auto
  then have a: "filter (\<lambda>p. settle_at p \<le> now e) (pending e) = []"
    by (simp add: filter_empty_conv)
  have b: "filter (\<lambda>p. \<not> settle_at p \<le> now e) (pending e) = pending e"
    using none by (simp add: filter_id_conv)
  show ?thesis
    by (simp add: settle_requests_def a b)
qed


lemma polling_advance:
  "d < ms \<Longrightarrow> polling t0 h calls w this ms d (advance d (mount (idle_page t0 h calls w this ms)))"
proof (induction d)
  case 0
  then show ?case by (simp add: polling_mount)
next
  case (Suc d)
  then have "polling t0 h calls w this ms d (advance d (mount (idle_page t0 h calls w this ms)))"
    by simp
  then have p: "polling t0 h calls w this ms (Suc d)
      (run_timers (advance d (mount (idle_page t0 h calls w this ms))))"
    by (rule run_timers_polling)
  show ?case
    unfolding advance_Suc_right tick_def
    using p settle_requests_quiet [OF p Suc.prems] by simp
qed

text \<open>The first request settles.\<close>

lemma settle_requests_crash:
  assumes "polling t0 h calls w this ms ms e"
  shows "\<not> mounted (settle_requests e) \<and> crashed (settle_requests e) \<and>
         timers (settle_requests e) = [] \<and>
         \<not> loading (view_state (settle_requests e)) \<and>
         load_calls (settle_requests e) = load_calls e \<and>
         wire (outside (settle_requests e)) = wire (outside e)"
proof -
  from assms obtain p rest where
    f: "now e = t0 + ms"
       "timers e = [\<lparr> handle = h, delay = 5000, due = t0 + 5000 * Suc (ms div 5000),
                      callback = LoadDashboardData \<rparr>]"
       "interval e = Some h" "mounted e"
       "pending e = p # rest" "settle_at p = t0 + ms" "\<forall>q\<in>set rest. t0 + ms < settle_at q"
    unfolding polling_def by blast
  have none: "\<forall>q\<in>set rest. \<not> settle_at q \<le> now e"
    using f by auto
  have a: "filter (\<lambda>p. settle_at p \<le> now e) (pending e) = [p]"
    using none f by (simp add: filter_empty_conv)
  have b: "filter (\<lambda>p. \<not> settle_at p \<le> now e) (pending e) = rest"
    using none f by (simp add: filter_id_conv)
  obtain st' w' where res:
    "loadDashboardData_resume (settles_with p) (view_state e) (outside e) = (st', w')"
    by (cases "loadDashboardData_resume (settles_with p) (view_state e) (outside e)")
  have l: "\<not> loading st'"
    using resume_loading [of "settles_with p" "view_state e" "outside e"] res by simp
  have wi: "wire w' = wire (outside e)"
    using resume_wire [of "settles_with p" "view_state e" "outside e"] res by simp
  have "settle_requests e = settle p (e\<lparr>pending := rest\<rparr>)"
    by (simp add: settle_requests_def a b)
  also have "\<dots> = (unmount (e\<lparr>pending := rest, view_state := st', outside := w'\<rparr>))\<lparr>crashed := True\<rparr>"
    using f(4) by (simp add: settle_def res rerender_def render_loaded [OF l])
  finally show ?thesis
    using f l wi by (simp add: unmount_def clearInterval_def)
qed

text \<open>After the unmount.\<close>

lemma settle_unmounted:
  "\<not> mounted e \<Longrightarrow>
   \<not> mounted (settle p e) \<and> crashed (settle p e) = crashed e \<and> timers (settle p e) = timers e \<and>
   view_state (settle p e) = view_state e \<and> load_calls (settle p e) = load_calls e \<and>
   wire (outside (settle p e)) = wire (outside e) \<and> now (settle p e) = now e"
  using resume_wire [of "settles_with p" "view_state e" "outside e"]
  by (cases "loadDashboardData_resume (settles_with p) (view_state e) (outside e)")
     (simp add: settle_def)

lemma fold_settle_unmounted:
  "\<not> mounted e \<Longrightarrow>
   \<not> mounted (fold settle ps e) \<and> crashed (fold settle ps e) = crashed e \<and>
   timers (fold settle ps e) = timers e \<and> view_state (fold settle ps e) = view_state e \<and>
   load_calls (fold settle ps e) = load_calls e \<and>
   wire (outside (fold settle ps e)) = wire (outside e) \<and> now (fold settle ps e) = now e"
proof (induction ps arbitrary: e)
  case Nil
  then show ?case by simp
next
  case (Cons p ps)
  have s: "\<not> mounted (settle p e)" using settle_unmounted [OF Cons.prems] by simp
  show ?case
    using Cons.IH [OF s] settle_unmounted [OF Cons.prems, of p] by simp
qed

lemma tick_unmounted:
  assumes "\<not> mounted e" and "timers e = []"
  shows "\<not> mounted (tick e) \<and> crashed (tick e) = crashed e \<and> timers (tick e) = [] \<and>
         view_state (tick e) = view_state e \<and> load_calls (tick e) = load_calls e \<and>
         wire (outside (tick e)) = wire (outside e)"
proof -
  have r: "run_timers e = e\<lparr>now := Suc (now e), timers := []\<rparr>"
    using assms(2) by (simp add: run_timers_def Let_def)
  define e3 where "e3 = (run_timers e)
      \<lparr>pending := filter (\<lambda>p. \<not> settle_at p \<le> now (run_timers e)) (pending (run_timers e))\<rparr>"
  have m: "\<not> mounted e3" "crashed e3 = crashed e" "timers e3 = []" "view_state e3 = view_state e"
    "load_calls e3 = load_calls e" "outside e3 = outside e"
    using assms by (simp_all add: e3_def r)
  have "tick e = fold settle (filter (\<lambda>p. settle_at p \<le> now (run_timers e))
      (pending (run_timers e))) e3"
    by (simp add: tick_def settle_requests_def e3_def)
  then show ?thesis
    using fold_settle_unmounted [OF m(1)] m by simp
qed

lemma advance_unmounted:
  "\<not> mounted e \<Longrightarrow> timers e = [] \<Longrightarrow>
   \<not> mounted (advance n e) \<and> crashed (advance n e) = crashed e \<and> timers (advance n e) = [] \<and>
   view_state (advance n e) = view_state e \<and> load_calls (advance n e) = load_calls e \<and>
   wire (outside (advance n e)) = wire (outside e)"
proof (induction n arbitrary: e)
  case 0
  then show ?case by simp
next
  case (Suc n)
  have t: "\<not> mounted (tick e)" "timers (tick e) = []"
    using tick_unmounted [OF Suc.prems] by simp_all
  show ?case
    using Suc.IH [OF t] tick_unmounted [OF Suc.prems] by simp
qed


lemma first_settled:
  assumes "0 < ms"
  shows "\<not> mounted (advance ms (mount (idle_page t0 h calls w this ms))) \<and>
     crashed (advance ms (mount (idle_page t0 h calls w this ms))) \<and>
     timers (advance ms (mount (idle_page t0 h calls w this ms))) = [] \<and>
     \<not> loading (view_state (advance ms (mount (idle_page t0 h calls w this ms)))) \<and>
     load_calls (advance ms (mount (idle_page t0 h calls w this ms))) =
       calls @ map (\<lambda>k. t0 + 5000 * k) [0..<Suc (ms div 5000)] \<and>
     wire (outside (advance ms (mount (idle_page t0 h calls w this ms)))) =
       wire w @ replicate (Suc (ms div 5000)) (config_of this GetSystemStatus)"
proof -
  obtain m where m: "ms = Suc m" using assms by (cases ms) simp_all
  have "polling t0 h calls w this ms m (advance m (mount (idle_page t0 h calls w this ms)))"
    using polling_advance [of m ms t0 h calls w this] m by simp
  then have p: "polling t0 h calls w this ms ms
      (run_timers (advance m (mount (idle_page t0 h calls w this ms))))"
    unfolding m by (rule run_timers_polling)
  have t: "advance ms (mount (idle_page t0 h calls w this ms)) =
      settle_requests (run_timers (advance m (mount (idle_page t0 h calls w this ms))))"
    by (simp only: m advance_Suc_right tick_def)
  have l: "load_calls (run_timers (advance m (mount (idle_page t0 h calls w this ms)))) =
       calls @ map (\<lambda>k. t0 + 5000 * k) [0..<Suc (ms div 5000)]"
    and wi: "wire (outside (run_timers (advance m (mount (idle_page t0 h calls w this ms))))) =
       wire w @ replicate (Suc (ms div 5000)) (config_of this GetSystemStatus)"
    using p unfolding polling_def by blast+
  show ?thesis
    unfolding t using settle_requests_crash [OF p] l wi by simp
qed

lemma unmount_clears:
  assumes "timers e = [] \<or> (\<exists>x. timers e = [x] \<and> interval e = Some (handle x))"
  shows "timers (unmount e) = [] \<and> \<not> mounted (unmount e) \<and> load_calls (unmount e) = load_calls e"
  using assms by (auto simp: unmount_def clearInterval_def split: option.splits)

text \<open>
  C6 (not met by the code). The page is to reload its data every 5000 milliseconds from
  its mount until its unmount. The effect does start that timer on mount and clear it on
  unmount, and no load is invoked after an unmount. But the page does not outlive its
  first settled load: the load sets \<open>loading\<close> to false, the render that follows evaluates
  the icon \<open>Mic\<close>, which the module never imports, and throws; the page is taken down and
  the cleanup clears the timer. With the first request settling \<open>ms\<close> milliseconds after a
  mount at \<open>t0\<close>: until then the load is invoked exactly at \<open>t0\<close>, \<open>t0 + 5000\<close>,
  \<open>t0 + 10000\<close>, ..., each call issuing the status request, and the page shows the
  spinner; from then on the page is gone, no timer is left, and no load is invoked any
  more.
\<close>

theorem polling_ends_with_first_load:
  assumes "0 < ms"
  shows "load_calls (advance d (mount (idle_page t0 h calls w this ms))) =
       calls @ map (\<lambda>k. t0 + 5000 * k) [0..<Suc ((min d ms) div 5000)] \<and>
     wire (outside (advance d (mount (idle_page t0 h calls w this ms)))) =
       wire w @ replicate (Suc ((min d ms) div 5000)) (config_of this GetSystemStatus) \<and>
     mounted (advance d (mount (idle_page t0 h calls w this ms))) = (d < ms) \<and>
     crashed (advance d (mount (idle_page t0 h calls w this ms))) = (ms \<le> d) \<and>
     timers (advance d (mount (idle_page t0 h calls w this ms))) =
       (if d < ms
        then [\<lparr> handle = h, delay = 5000, due = t0 + 5000 * Suc (d div 5000),
                callback = LoadDashboardData \<rparr>]
        else []) \<and>
     render (view_state (advance d (mount (idle_page t0 h calls w this ms)))) =
       (if d < ms then Some Spinner else None) \<and>
     load_calls (advance n (unmount (advance d (mount (idle_page t0 h calls w this ms))))) =
       load_calls (advance d (mount (idle_page t0 h calls w this ms)))"
proof -
  define e where "e = advance d (mount (idle_page t0 h calls w this ms))"
  have main: "load_calls e = calls @ map (\<lambda>k. t0 + 5000 * k) [0..<Suc ((min d ms) div 5000)] \<and>
     wire (outside e) =
       wire w @ replicate (Suc ((min d ms) div 5000)) (config_of this GetSystemStatus) \<and>
     mounted e = (d < ms) \<and> crashed e = (ms \<le> d) \<and>
     timers e =
       (if d < ms
        then [\<lparr> handle = h, delay = 5000, due = t0 + 5000 * Suc (d div 5000),
                callback = LoadDashboardData \<rparr>]
        else []) \<and>
     render (view_state e) = (if d < ms then Some Spinner else None) \<and>
     (timers e = [] \<or> (\<exists>x. timers e = [x] \<and> interval e = Some (handle x)))"
  proof (cases "d < ms")
    case True
    then have p: "polling t0 h calls w this ms d e"
      unfolding e_def by (rule polling_advance)
    have "min d ms = d" using True by simp
    then show ?thesis
      using p True unfolding polling_def by (simp add: render_loading)
  next
    case False
    define c where "c = advance ms (mount (idle_page t0 h calls w this ms))"
    have e: "e = advance (d - ms) c"
      using False advance_add [of ms "d - ms" "mount (idle_page t0 h calls w this ms)"]
      by (simp add: e_def c_def)
    have c: "\<not> mounted c" "crashed c" "timers c = []" "\<not> loading (view_state c)"
      "load_calls c = calls @ map (\<lambda>k. t0 + 5000 * k) [0..<Suc (ms div 5000)]"
      "wire (outside c) = wire w @ replicate (Suc (ms div 5000)) (config_of this GetSystemStatus)"
      using first_settled [OF assms, of t0 h calls w this] unfolding c_def by blast+
    have "min d ms = ms" using False by simp
    then show ?thesis
      using advance_unmounted [OF c(1) c(3), of "d - ms"] c False
      by (simp add: e render_loaded)
  qed
  then have u: "timers (unmount e) = []" "\<not> mounted (unmount e)"
    "load_calls (unmount e) = load_calls e"
    using unmount_clears [of e] by blast+
  have "load_calls (advance n (unmount e)) = load_calls e"
    using advance_unmounted [OF u(2) u(1), of n] u(3) by simp
  then show ?thesis
    using main unfolding e_def by blast
qed

text \<open>
  The server answers after 120 milliseconds. Twelve seconds after a mount at time 7 the
  load has been invoked once, at 7, and not at 5007 and 10007.
\<close>

theorem polling_ends_with_first_load_witness:
  "(0::nat) < 120 \<and>
   load_calls (advance 12000
     (mount (idle_page 7 1 [] empty_world (service (replying status_body)) 120))) = [7] \<and>
   \<not> mounted (advance 12000
     (mount (idle_page 7 1 [] empty_world (service (replying status_body)) 120))) \<and>
   crashed (advance 12000
     (mount (idle_page 7 1 [] empty_world (service (replying status_body)) 120))) \<and>
   timers (advance 12000
     (mount (idle_page 7 1 [] empty_world (service (replying status_body)) 120))) = []"
proof -
  have h: "(0::nat) < 120" by simp
  have m: "(min (12000::nat) 120) div 5000 = 0" by simp
  show ?thesis
    using polling_ends_with_first_load [OF h, of 12000 7 1 "[]" empty_world
        "service (replying status_body)" 0]
    by (simp add: m)
qed

section \<open>Properties of the route table\<close>

lemma resolve_first:
  "matches ''*'' location \<Longrightarrow>
   resolve matches location =
     Some (if matches ''/'' location then Dashboard
           else if matches ''/chat'' location then Chat
           else if matches ''/system'' location then SystemInfo
           else if matches ''/files'' location then FileManager
           else if matches ''/voice'' location then VoiceControl
           else if matches ''/settings'' location then Settings
           else NotFound)"
  by (simp add: resolve_def routes_def)

text \<open>
  C7. The route table maps six feature pages to paths: Dashboard at \<open>/\<close>, Chat at
  \<open>/chat\<close>, SystemInfo at \<open>/system\<close>, FileManager at \<open>/files\<close>, VoiceControl at \<open>/voice\<close>
  and Settings at \<open>/settings\<close>. A location that matches one of these patterns resolves to
  its page, every other location resolves to NotFound through the catch-all route, and
  the sidebar lists exactly these six paths, one entry each, in the same order.
\<close>

theorem route_table:
  "matches ''*'' location \<Longrightarrow>
   resolve matches location =
     Some (if matches ''/'' location then Dashboard
           else if matches ''/chat'' location then Chat
           else if matches ''/system'' location then SystemInfo
           else if matches ''/files'' location then FileManager
           else if matches ''/voice'' location then VoiceControl
           else if matches ''/settings'' location then Settings
           else NotFound) \<and>
   map path navigation = [''/'', ''/chat'', ''/system'', ''/files'', ''/voice'', ''/settings''] \<and>
   map fst routes = map path navigation @ [''*''] \<and>
   map snd routes = [Dashboard, Chat, SystemInfo, FileManager, VoiceControl, Settings, NotFound]"
  by (simp add: resolve_first) (simp add: routes_def navigation_def)

theorem route_table_witness:
  "exact ''*'' ''/nowhere'' \<and> resolve exact ''/nowhere'' = Some NotFound \<and>
   exact ''*'' ''/chat'' \<and> resolve exact ''/chat'' = Some Chat"
  using route_table [of exact "''/nowhere''"] route_table [of exact "''/chat''"]
  by (simp add: exact_def)


end
